theory Spec2Isabelle
  imports Main
begin

text \<open>
  A shallow embedding of the QPay integration of the e-commerce service: the payment
  processor \<^verbatim>\<open>ecommerce/extensions/payment/processors/qpay.py\<close> and the views
  \<^verbatim>\<open>ecommerce/extensions/payment/views/qpay.py\<close>. Exceptions are values of a sum type,
  the gateway and the audit table are explicit state, and the collaborators that live
  outside these two files are parameters.
\<close>

section \<open>Python values and exceptions\<close>

text \<open>
  The values that \<^verbatim>\<open>response.json()\<close> decodes and that the processor passes
  around: \<^verbatim>\<open>None\<close>, booleans, numbers, strings, lists and dicts. A dict is an
  association list in insertion order, read with \<open>map_of\<close>.
\<close>

datatype json =
    JNull
  | JBool bool
  | JNum int
  | JStr string
  | JArr "json list"
  | JObj "(string \<times> json) list"

text \<open>
  The exceptions the modelled code can raise or let through. \<open>Raised n\<close> is an
  exception of a collaborator (transport, JSON decoding, database), named by \<open>n\<close>.
\<close>

datatype exn =
    KeyError string
  | TypeError
  | AttributeError
  | AssertionError
  | OrderNotPaidException
  | MultipleObjectsReturned
  | ObjectDoesNotExist
  | DecimalOverflow
  | Raised string

text \<open>\<^verbatim>\<open>type(ex).__name__\<close>.\<close>

fun type_name :: "exn \<Rightarrow> string" where
  "type_name (KeyError k) = ''KeyError''"
| "type_name TypeError = ''TypeError''"
| "type_name AttributeError = ''AttributeError''"
| "type_name AssertionError = ''AssertionError''"
| "type_name OrderNotPaidException = ''OrderNotPaidException''"
| "type_name MultipleObjectsReturned = ''MultipleObjectsReturned''"
| "type_name ObjectDoesNotExist = ''DoesNotExist''"
| "type_name DecimalOverflow = ''Overflow''"
| "type_name (Raised n) = n"

text \<open>\<^verbatim>\<open>d[k]\<close> with a string key: only a dict accepts it.\<close>

fun getitem :: "json \<Rightarrow> string \<Rightarrow> exn + json" where
  "getitem (JObj kvs) k = (case map_of kvs k of None \<Rightarrow> Inl (KeyError k) | Some v \<Rightarrow> Inr v)"
| "getitem _ k = Inl TypeError"

text \<open>\<^verbatim>\<open>d.get(k)\<close>: only a dict has the method.\<close>

fun dict_get :: "json \<Rightarrow> string \<Rightarrow> exn + json" where
  "dict_get (JObj kvs) k = Inr (case map_of kvs k of None \<Rightarrow> JNull | Some v \<Rightarrow> v)"
| "dict_get _ k = Inl AttributeError"

text \<open>\<^verbatim>\<open>for i in v\<close>: a list yields its items, a dict its keys, a string its
  characters; nothing else is iterable.\<close>

fun iter :: "json \<Rightarrow> exn + json list" where
  "iter (JArr xs) = Inr xs"
| "iter (JObj kvs) = Inr (map (\<lambda>kv. JStr (fst kv)) kvs)"
| "iter (JStr s) = Inr (map (\<lambda>c. JStr [c]) s)"
| "iter _ = Inl TypeError"

text \<open>\<^verbatim>\<open>'Bearer ' + token\<close>: concatenation accepts a string only.\<close>

fun str_add :: "string \<Rightarrow> json \<Rightarrow> exn + string" where
  "str_add s (JStr t) = Inr (s @ t)"
| "str_add s _ = Inl TypeError"

section \<open>Decimal amounts\<close>

text \<open>
  \<^verbatim>\<open>basket.total_incl_tax\<close> is a finite \<^verbatim>\<open>decimal.Decimal\<close>: a sign, a
  coefficient (Python keeps its digit string \<^verbatim>\<open>_int\<close>, without leading zeros) and an
  exponent. The operations below are those of Python's \<^verbatim>\<open>decimal\<close> module under the
  default context: precision 28, \<^verbatim>\<open>ROUND_HALF_EVEN\<close>, \<^verbatim>\<open>Emax = 999999\<close>,
  \<^verbatim>\<open>Emin = -999999\<close>, \<^verbatim>\<open>Overflow\<close> trapped.
\<close>

record decimal =
  dec_sign :: bool
  dec_int :: nat
  dec_exp :: int

definition ctx_prec :: nat where "ctx_prec = 28"
definition Emax :: int where "Emax = 999999"
definition Emin :: int where "Emin = - 999999"
definition Etiny :: int where "Etiny = Emin - int ctx_prec + 1"
definition Etop :: int where "Etop = Emax - int ctx_prec + 1"

text \<open>\<^verbatim>\<open>str(n)\<close> for a natural number: its decimal digits.\<close>

definition digit_char :: "nat \<Rightarrow> char" where
  "digit_char d = ''0123456789'' ! d"

function str_nat :: "nat \<Rightarrow> string" where
  "str_nat n = (if n < 10 then [digit_char n] else str_nat (n div 10) @ [digit_char (n mod 10)])"
  by pat_completeness auto
termination
  by (relation "measure id") auto

declare str_nat.simps [simp del]

text \<open>\<^verbatim>\<open>"%+d" % i\<close>: the sign is always written.\<close>

definition str_signed :: "int \<Rightarrow> string" where
  "str_signed i = (if i < 0 then ''-'' else ''+'') @ str_nat (nat \<bar>i\<bar>)"

text \<open>
  The rounding functions take the coefficient \<open>c\<close> and the number \<open>p\<close> of leading digits
  to keep (\<open>0 \<le> p < len(_int)\<close>); with \<open>k\<close> the number of digits dropped, the digit
  \<^verbatim>\<open>_int[p]\<close> is \<open>(c div 10 ^ (k - 1)) mod 10\<close>, \<^verbatim>\<open>_all_zeros\<close> says
  \<open>c mod 10 ^ k = 0\<close> and \<^verbatim>\<open>_exact_half\<close> says \<open>c mod 10 ^ k = 5 * 10 ^ (k - 1)\<close>.
  The result is 1 (round away from zero), 0 (exact) or -1 (truncate, inexact).
\<close>

definition round_half_up :: "nat \<Rightarrow> nat \<Rightarrow> int" where
  "round_half_up c p =
     (let k = length (str_nat c) - p in
      if 5 \<le> (c div 10 ^ (k - 1)) mod 10 then 1
      else if c mod 10 ^ k = 0 then 0
      else - 1)"

definition round_half_even :: "nat \<Rightarrow> nat \<Rightarrow> int" where
  "round_half_even c p =
     (let k = length (str_nat c) - p in
      if c mod 10 ^ k = 5 * 10 ^ (k - 1) \<and> (p = 0 \<or> even ((c div 10 ^ k) mod 10)) then - 1
      else round_half_up c p)"

text \<open>\<^verbatim>\<open>int(self._int[:p] or '0')\<close>: the number the first \<open>p\<close> digits spell.\<close>

definition keep_digits :: "nat \<Rightarrow> nat \<Rightarrow> nat" where
  "keep_digits c p = c div 10 ^ (length (str_nat c) - p)"

text \<open>\<^verbatim>\<open>Decimal._fix\<close>: round to the context's precision and exponent range.\<close>

definition dec_fix :: "decimal \<Rightarrow> exn + decimal" where
  "dec_fix d =
     (if dec_int d = 0 then
        Inr (d\<lparr>dec_exp := min (max (dec_exp d) Etiny) Emax\<rparr>)
      else
        let exp_min0 = int (length (str_nat (dec_int d))) + dec_exp d - int ctx_prec in
        if exp_min0 > Etop then Inl DecimalOverflow
        else
          let exp_min = (if exp_min0 < Etiny then Etiny else exp_min0) in
          if dec_exp d < exp_min then
            let digits0 = int (length (str_nat (dec_int d))) + dec_exp d - exp_min;
                c = (if digits0 < 0 then 1 else dec_int d);
                digits = (if digits0 < 0 then 0 else nat digits0);
                changed = round_half_even c digits;
                coeff0 = keep_digits c digits;
                coeff1 = (if changed > 0 then coeff0 + 1 else coeff0);
                longer = (changed > 0 \<and> length (str_nat coeff1) > ctx_prec);
                coeff = (if longer then coeff1 div 10 else coeff1);
                exp_min' = (if longer then exp_min + 1 else exp_min)
            in if exp_min' > Etop then Inl DecimalOverflow
               else Inr \<lparr>dec_sign = dec_sign d, dec_int = coeff, dec_exp = exp_min'\<rparr>
          else Inr d)"

text \<open>\<^verbatim>\<open>Decimal(i)\<close> for an \<^verbatim>\<open>int\<close>, and \<^verbatim>\<open>Decimal.__mul__\<close> on finite operands.\<close>

definition dec_of_int :: "int \<Rightarrow> decimal" where
  "dec_of_int i = \<lparr>dec_sign = (i < 0), dec_int = nat \<bar>i\<bar>, dec_exp = 0\<rparr>"

definition dec_mul :: "decimal \<Rightarrow> decimal \<Rightarrow> exn + decimal" where
  "dec_mul a b =
     (let resultsign = (dec_sign a \<noteq> dec_sign b);
          resultexp = dec_exp a + dec_exp b
      in if dec_int a = 0 \<or> dec_int b = 0 then
           dec_fix \<lparr>dec_sign = resultsign, dec_int = 0, dec_exp = resultexp\<rparr>
         else
           dec_fix \<lparr>dec_sign = resultsign, dec_int = dec_int a * dec_int b, dec_exp = resultexp\<rparr>)"

text \<open>\<^verbatim>\<open>Decimal._rescale(exp, ROUND_HALF_EVEN)\<close> and \<^verbatim>\<open>to_integral_value()\<close>.\<close>

definition rescale :: "decimal \<Rightarrow> int \<Rightarrow> decimal" where
  "rescale d e =
     (if dec_int d = 0 then \<lparr>dec_sign = dec_sign d, dec_int = 0, dec_exp = e\<rparr>
      else if dec_exp d \<ge> e then
        \<lparr>dec_sign = dec_sign d, dec_int = dec_int d * 10 ^ nat (dec_exp d - e), dec_exp = e\<rparr>
      else
        let digits0 = int (length (str_nat (dec_int d))) + dec_exp d - e;
            c = (if digits0 < 0 then 1 else dec_int d);
            digits = (if digits0 < 0 then 0 else nat digits0);
            changed = round_half_even c digits;
            coeff0 = keep_digits c digits;
            coeff = (if changed = 1 then coeff0 + 1 else coeff0)
        in \<lparr>dec_sign = dec_sign d, dec_int = coeff, dec_exp = e\<rparr>)"

definition to_integral_value :: "decimal \<Rightarrow> decimal" where
  "to_integral_value d = (if dec_exp d \<ge> 0 then d else rescale d 0)"

text \<open>\<^verbatim>\<open>Decimal.__str__\<close>: plain digits when the exponent is at most 0 and the number
  is not too small, scientific notation otherwise.\<close>

definition dec_str :: "decimal \<Rightarrow> string" where
  "dec_str d =
     (let sign = (if dec_sign d then ''-'' else '''');
          ds = str_nat (dec_int d);
          leftdigits = dec_exp d + int (length ds);
          dotplace = (if dec_exp d \<le> 0 \<and> leftdigits > - 6 then leftdigits else 1);
          intpart =
            (if dotplace \<le> 0 then ''0''
             else if dotplace \<ge> int (length ds)
               then ds @ replicate (nat (dotplace - int (length ds))) (CHR ''0'')
             else take (nat dotplace) ds);
          fracpart =
            (if dotplace \<le> 0 then ''.'' @ replicate (nat (- dotplace)) (CHR ''0'') @ ds
             else if dotplace \<ge> int (length ds) then ''''
             else ''.'' @ drop (nat dotplace) ds);
          expo = (if leftdigits = dotplace then '''' else ''E'' @ str_signed (leftdigits - dotplace))
      in sign @ intpart @ fracpart @ expo)"

section \<open>Baskets\<close>

record basket =
  basket_id :: int
  order_number :: string
  total_incl_tax :: decimal
  currency :: string
  lines :: "nat list"

text \<open>
  \<^verbatim>\<open>Qpay._get_basket_amount\<close>:
  \<^verbatim>\<open>str((basket.total_incl_tax * 100).to_integral_value())\<close>.
\<close>

definition get_basket_amount :: "basket \<Rightarrow> exn + string" where
  "get_basket_amount b =
     (case dec_mul (total_incl_tax b) (dec_of_int 100) of
        Inl e \<Rightarrow> Inl e
      | Inr p \<Rightarrow> Inr (dec_str (to_integral_value p)))"

section \<open>The gateway and the audit store\<close>

text \<open>
  What \<^verbatim>\<open>requests.request\<close> is given. A form field is a string or the
  \<^verbatim>\<open>json.dumps\<close> of a value; a body is absent, a string, the \<^verbatim>\<open>json.dumps\<close> of a
  value, or a dict of form fields.
\<close>

datatype form_value = FStr string | FDumps json

datatype payload = NoData | Body string | JsonDumps json | FormData "(string \<times> form_value) list"

record request =
  req_method :: string
  req_url :: string
  req_headers :: "(string \<times> string) list"
  req_auth :: "(string \<times> string) option"
  req_data :: payload

text \<open>
  A row of \<^verbatim>\<open>PaymentProcessorResponse\<close>, the audit table
  \<^verbatim>\<open>record_processor_response\<close> writes to.
\<close>

record audit_entry =
  ae_transaction_id :: string
  ae_response :: json
  ae_basket :: "basket option"

text \<open>The state the processor changes: the requests sent so far and the audit table.\<close>

record world =
  sent :: "request list"
  audit_log :: "audit_entry list"

text \<open>
  The collaborators. \<open>gateway\<close> answers a request, given the requests before it, with
  what \<^verbatim>\<open>requests.request(...).json()\<close> yields: a decoded body, or the exception of
  the transport or of the decoder. \<open>audit_fault\<close> says whether the audit table, in its
  present state, refuses a row, and with which exception.
\<close>

record env =
  gateway :: "request list \<Rightarrow> request \<Rightarrow> exn + json"
  audit_fault :: "audit_entry list \<Rightarrow> audit_entry \<Rightarrow> exn option"

text \<open>The processor object: the attributes of \<^verbatim>\<open>Qpay\<close> that the requests use.\<close>

record qpay =
  base_url :: string
  invoice_code :: string
  client_id :: string
  client_secret :: string

type_synonym 'a io = "world \<Rightarrow> (exn + 'a) \<times> world"

definition bind_io :: "'a io \<Rightarrow> ('a \<Rightarrow> 'b io) \<Rightarrow> 'b io" where
  "bind_io m f w = (case m w of (Inl e, w') \<Rightarrow> (Inl e, w') | (Inr x, w') \<Rightarrow> f x w')"

definition lift_io :: "exn + 'a \<Rightarrow> 'a io" where
  "lift_io r w = (r, w)"

text \<open>\<^verbatim>\<open>requests.request(...)\<close> followed by \<^verbatim>\<open>response.json()\<close>.\<close>

definition requests_request :: "env \<Rightarrow> request \<Rightarrow> json io" where
  "requests_request ev rq w = (gateway ev (sent w) rq, w\<lparr>sent := sent w @ [rq]\<rparr>)"

text \<open>
  Modelled from the spec: \<^verbatim>\<open>record_processor_response\<close> of the processor base class,
  which is not among the sources. The spec's Audit Recorder is a durable log of every gateway
  interaction, keyed by transaction reference: a call appends one row holding the response,
  the transaction id and the basket, or raises what the store raises and appends nothing.
\<close>

definition record_processor_response :: "env \<Rightarrow> json \<Rightarrow> string \<Rightarrow> basket option \<Rightarrow> unit io" where
  "record_processor_response ev response tid b w =
     (let row = \<lparr>ae_transaction_id = tid, ae_response = response, ae_basket = b\<rparr> in
      case audit_fault ev (audit_log w) row of
        Some e \<Rightarrow> (Inl e, w)
      | None \<Rightarrow> (Inr (), w\<lparr>audit_log := audit_log w @ [row]\<rparr>))"

section \<open>The processor: \<^verbatim>\<open>processors/qpay.py\<close>\<close>

definition token_request :: "qpay \<Rightarrow> request" where
  "token_request self =
     \<lparr>req_method = ''POST'', req_url = base_url self @ ''auth/token'', req_headers = [],
      req_auth = Some (client_id self, client_secret self), req_data = Body ''''\<rparr>"

definition token :: "env \<Rightarrow> qpay \<Rightarrow> json io" where
  "token ev self =
     bind_io (requests_request ev (token_request self)) (\<lambda>res.
       lift_io (getitem res ''access_token''))"

definition refund_request :: "qpay \<Rightarrow> string \<Rightarrow> string \<Rightarrow> request" where
  "refund_request self bearer order_id =
     \<lparr>req_method = ''DELETE'', req_url = base_url self @ ''payment/refund/'' @ order_id,
      req_headers = [(''Authorization'', bearer)], req_auth = None, req_data = NoData\<rparr>"

definition refund :: "env \<Rightarrow> qpay \<Rightarrow> string \<Rightarrow> json io" where
  "refund ev self order_id =
     bind_io (token ev self) (\<lambda>tok.
     bind_io (lift_io (str_add ''Bearer '' tok)) (\<lambda>bearer.
       requests_request ev (refund_request self bearer order_id)))"

definition check_request :: "qpay \<Rightarrow> string \<Rightarrow> string \<Rightarrow> request" where
  "check_request self bearer order_id =
     \<lparr>req_method = ''POST'', req_url = base_url self @ ''payment/check'',
      req_headers = [(''Authorization'', bearer)], req_auth = None,
      req_data = FormData
        [(''object_type'', FStr ''INVOICE''),
         (''object_id'', FStr order_id),
         (''offset'', FDumps (JObj [(''page_number'', JNum 1), (''page_limit'', JNum 100)]))]\<rparr>"

definition NOT_PAID :: json where
  "NOT_PAID = JObj [(''payment_status'', JStr ''NOT-PAID'')]"

text \<open>The loop of \<^verbatim>\<open>check\<close> over \<^verbatim>\<open>res['rows']\<close>.\<close>

fun scan_rows :: "json list \<Rightarrow> exn + json" where
  "scan_rows [] = Inr NOT_PAID"
| "scan_rows (i # rest) =
     (case getitem i ''payment_status'' of
        Inl e \<Rightarrow> Inl e
      | Inr s \<Rightarrow> if s = JStr ''PAID'' then Inr i else scan_rows rest)"

text \<open>What \<^verbatim>\<open>check\<close> does with the decoded response \<^verbatim>\<open>res\<close>.\<close>

definition check_result :: "json \<Rightarrow> exn + json" where
  "check_result res =
     (case dict_get res ''error'' of
        Inl e \<Rightarrow> Inl e
      | Inr err \<Rightarrow>
          if err \<noteq> JStr ''PAYMENT_NOTFOUND'' then
            (case getitem res ''rows'' of
               Inl e \<Rightarrow> Inl e
             | Inr rows \<Rightarrow> (case iter rows of Inl e \<Rightarrow> Inl e | Inr xs \<Rightarrow> scan_rows xs))
          else Inr NOT_PAID)"

definition check :: "env \<Rightarrow> qpay \<Rightarrow> string \<Rightarrow> json io" where
  "check ev self order_id =
     bind_io (token ev self) (\<lambda>tok.
     bind_io (lift_io (str_add ''Bearer '' tok)) (\<lambda>bearer.
     bind_io (requests_request ev (check_request self bearer order_id)) (\<lambda>res.
       lift_io (check_result res))))"

text \<open>\<^verbatim>\<open>HandledProcessorResponse\<close>, the payment record \<^verbatim>\<open>handle_processor_response\<close>
  returns.\<close>

record handled_processor_response =
  transaction_id :: string
  total :: decimal
  hpr_currency :: string
  card_number :: string
  card_type :: string

text \<open>Reading an attribute of \<^verbatim>\<open>basket\<close>, which may be \<^verbatim>\<open>None\<close>.\<close>

definition attr_of :: "basket option \<Rightarrow> exn + basket" where
  "attr_of b = (case b of None \<Rightarrow> Inl AttributeError | Some x \<Rightarrow> Inr x)"

text \<open>
  \<^verbatim>\<open>handle_processor_response(payment_intent_id, basket=None)\<close>. The logging calls
  only read \<^verbatim>\<open>basket.id\<close>; the \<^verbatim>\<open>assert\<close> reads \<^verbatim>\<open>['status']\<close> and compares it
  (the interpreter is taken in its default mode, in which \<^verbatim>\<open>assert\<close> statements run).
\<close>

definition handle_processor_response ::
    "env \<Rightarrow> qpay \<Rightarrow> string \<Rightarrow> basket option \<Rightarrow> handled_processor_response io" where
  "handle_processor_response ev self payment_intent_id b =
     bind_io (check ev self payment_intent_id) (\<lambda>confirm_api_response.
     bind_io (lift_io (getitem confirm_api_response ''payment_status'')) (\<lambda>payment_status.
       if payment_status = JStr ''NOT-PAID'' then
         bind_io (record_processor_response ev confirm_api_response payment_intent_id b) (\<lambda>_.
         bind_io (lift_io (attr_of b)) (\<lambda>_.
           lift_io (Inl OrderNotPaidException)))
       else
         bind_io (lift_io (getitem confirm_api_response ''status'')) (\<lambda>status.
           if status \<noteq> JStr ''succeeded'' then lift_io (Inl AssertionError)
           else
             bind_io (record_processor_response ev confirm_api_response payment_intent_id b) (\<lambda>_.
             bind_io (lift_io (attr_of b)) (\<lambda>bk.
               lift_io (Inr \<lparr>transaction_id = payment_intent_id, total = total_incl_tax bk,
                              hpr_currency = currency bk, card_number = ''Qpay'',
                              card_type = payment_intent_id\<rparr>))))))"

text \<open>
  \<^verbatim>\<open>issue_credit(order_number, basket, reference_number, amount, currency)\<close>: the bare
  \<^verbatim>\<open>except\<close> records an empty response and re-raises; an exception of the recording
  itself leaves the handler in place of the one being handled.
\<close>

definition issue_credit ::
    "env \<Rightarrow> qpay \<Rightarrow> string \<Rightarrow> basket option \<Rightarrow> string \<Rightarrow> decimal \<Rightarrow> string \<Rightarrow> string io" where
  "issue_credit ev self order_no b reference_number amount cur w =
     (case refund ev self reference_number w of
        (Inl e, w1) \<Rightarrow>
          (case record_processor_response ev (JObj []) reference_number b w1 of
             (Inl e', w2) \<Rightarrow> (Inl e', w2)
           | (Inr _, w2) \<Rightarrow> (Inl e, w2))
      | (Inr r, w1) \<Rightarrow>
          bind_io (record_processor_response ev r reference_number b) (\<lambda>_.
            lift_io (Inr reference_number)) w1)"

text \<open>\<^verbatim>\<open>create(basket)\<close>: the invoice request.\<close>

definition create_request :: "qpay \<Rightarrow> string \<Rightarrow> string \<Rightarrow> string \<Rightarrow> request" where
  "create_request self bearer order_id amount =
     \<lparr>req_method = ''POST'', req_url = base_url self @ ''invoice'',
      req_headers = [(''Content-Type'', ''application/json''), (''Authorization'', bearer)],
      req_auth = None,
      req_data = JsonDumps (JObj
        [(''invoice_code'', JStr (invoice_code self)),
         (''sender_invoice_no'', JStr order_id),
         (''invoice_receiver_code'', JStr ''terminal''),
         (''invoice_description'', JStr ''Course''),
         (''amount'', JStr amount),
         (''callback_url'', JStr (base_url self @ ''payment/qpay/check/'' @ order_id @ ''/''))])\<rparr>"

definition create :: "env \<Rightarrow> qpay \<Rightarrow> basket \<Rightarrow> json io" where
  "create ev self b =
     bind_io (token ev self) (\<lambda>tok.
     bind_io (lift_io (get_basket_amount b)) (\<lambda>amount.
     bind_io (lift_io (str_add ''Bearer '' tok)) (\<lambda>bearer.
       requests_request ev (create_request self bearer (order_number b) amount))))"

text \<open>
  \<^verbatim>\<open>get_capture_context(request)\<close>. \<open>found\<close> is what
  \<^verbatim>\<open>Basket.get_basket(request.user, request.site)\<close> yields and \<open>add_attribute\<close> is
  \<^verbatim>\<open>basket_add_payment_intent_id_attribute\<close>, both collaborators outside the sources.
\<close>

definition empty_qpay_response :: json where
  "empty_qpay_response =
     JObj [(''invoice_id'', JStr ''''), (''qr_code'', JStr ''''), (''qr_link'', JStr '''')]"

definition get_capture_context ::
    "env \<Rightarrow> (basket \<Rightarrow> json \<Rightarrow> exn option) \<Rightarrow> qpay \<Rightarrow> exn + basket \<Rightarrow> json io" where
  "get_capture_context ev add_attribute self found =
     bind_io (lift_io found) (\<lambda>b.
     bind_io
       (if lines b = [] then lift_io (Inr empty_qpay_response)
        else
          bind_io (create ev self b) (\<lambda>qpay_response.
          bind_io (lift_io (getitem qpay_response ''invoice_id'')) (\<lambda>transaction_id.
          bind_io (lift_io (case add_attribute b transaction_id of
                              Some e \<Rightarrow> Inl e | None \<Rightarrow> Inr ())) (\<lambda>_.
            lift_io (Inr qpay_response)))))
       (\<lambda>qpay_response.
     bind_io (lift_io (getitem qpay_response ''invoice_id'')) (\<lambda>invoice_id.
     bind_io (lift_io (getitem qpay_response ''qPay_shortUrl'')) (\<lambda>qpay_link.
     bind_io (lift_io (getitem qpay_response ''qr_image'')) (\<lambda>qpay_qr.
       lift_io (Inr (JObj
         [(''invoice_id'', invoice_id), (''qpay_link'', qpay_link), (''qpay_qr'', qpay_qr),
          (''order_id'', JStr (order_number b))])))))))"

section \<open>The views: \<^verbatim>\<open>views/qpay.py\<close>\<close>

text \<open>A response to the frontend: \<^verbatim>\<open>JsonResponse(body, status=s)\<close>, or Django's
  \<^verbatim>\<open>redirect(url)\<close>, an \<^verbatim>\<open>HttpResponseRedirect\<close> with status 302.\<close>

datatype http_response = JsonResponse json nat | HttpResponseRedirect string

fun status_code :: "http_response \<Rightarrow> nat" where
  "status_code (JsonResponse body s) = s"
| "status_code (HttpResponseRedirect url) = 302"

text \<open>The user-facing message of both views, as its UTF-8 bytes.\<close>

definition not_paid_message :: string where
  "not_paid_message =
     [CHR 0xD0, CHR 0xA2, CHR 0xD3, CHR 0xA9, CHR 0xD0, CHR 0xBB, CHR 0xD0, CHR 0xB1, CHR 0xD3,
      CHR 0xA9, CHR 0xD1, CHR 0x80, CHR 0x20, CHR 0xD1, CHR 0x82, CHR 0xD3, CHR 0xA9, CHR 0xD0,
      CHR 0xBB, CHR 0xD3, CHR 0xA9, CHR 0xD0, CHR 0xB3, CHR 0xD0, CHR 0xB4, CHR 0xD3, CHR 0xA9,
      CHR 0xD3, CHR 0xA9, CHR 0xD0, CHR 0xB3, CHR 0xD2, CHR 0xAF, CHR 0xD0, CHR 0xB9, CHR 0x20,
      CHR 0xD0, CHR 0xB1, CHR 0xD0, CHR 0xB0, CHR 0xD0, CHR 0xB9, CHR 0xD0, CHR 0xBD, CHR 0xD0,
      CHR 0xB0]"

text \<open>
  The \<^verbatim>\<open>payment_processor\<close> attribute of a view: \<^verbatim>\<open>QpayCheckView\<close> sets the class
  attribute to the string \<^verbatim>\<open>"qpay"\<close>; a processor object has a \<^verbatim>\<open>NAME\<close> and the
  method \<^verbatim>\<open>handle_processor_response\<close>, a string has neither.
\<close>

datatype processor_attr = StrAttr string | QpayAttr qpay

definition QpayCheckView_payment_processor :: processor_attr where
  "QpayCheckView_payment_processor = StrAttr ''qpay''"

fun processor_NAME :: "processor_attr \<Rightarrow> exn + string" where
  "processor_NAME (StrAttr s) = Inl AttributeError"
| "processor_NAME (QpayAttr p) = Inr ''qpay''"

fun processor_handle_processor_response ::
    "env \<Rightarrow> processor_attr \<Rightarrow> string \<Rightarrow> basket option \<Rightarrow> handled_processor_response io" where
  "processor_handle_processor_response ev (StrAttr s) pid b = lift_io (Inl AttributeError)"
| "processor_handle_processor_response ev (QpayAttr p) pid b = handle_processor_response ev p pid b"

text \<open>
  The collaborators of the views, none of them among the sources; each may raise.
  \<open>handle_payment_mixin\<close> is the \<^verbatim>\<open>handle_payment\<close> that \<^verbatim>\<open>QpayAPICheckView\<close>
  inherits from \<^verbatim>\<open>EdxOrderPlacementMixin\<close>; \<open>attribute_rows\<close> are the rows of
  \<^verbatim>\<open>BasketAttribute\<close> and \<open>PAYMENT_INTENT_ID_ATTRIBUTE\<close> the name of the correlation
  attribute's type; \<open>atomic_enter_fault\<close> and \<open>atomic_exit_fault\<close> are what entering and
  leaving \<^verbatim>\<open>transaction.atomic()\<close> raise.
\<close>

text \<open>The properties of the segment event \<^verbatim>\<open>handle_payment\<close> sends; the last three
  are set only on the paths that reach their \<^verbatim>\<open>update\<close>.\<close>

record payment_properties =
  prop_basket_id :: int
  prop_processor_name :: string
  prop_stripe_enabled :: bool
  prop_success :: "bool option"
  prop_payment_error :: "string option"
  prop_total :: "decimal option"

record basket_attribute =
  attribute_type :: string
  value_text :: string
  attr_basket :: basket

record view_env =
  record_payment :: "basket \<Rightarrow> handled_processor_response \<Rightarrow> exn option"
  track_segment_event :: "basket \<Rightarrow> payment_properties \<Rightarrow> exn option"
  add_organization_attribute :: "basket \<Rightarrow> exn option"
  add_payment_intent_id_attribute :: "basket \<Rightarrow> exn option"
  create_order :: "basket \<Rightarrow> exn option"
  handle_post_order :: "basket \<Rightarrow> exn option"
  get_receipt_page_url :: "basket \<Rightarrow> exn + string"
  PAYMENT_INTENT_ID_ATTRIBUTE :: string
  get_or_create_fault :: "exn option"
  attribute_rows :: "basket_attribute list"
  applicator_apply :: "basket \<Rightarrow> exn option"
  api_payment_processor :: "exn + qpay"
  error_url :: "exn + string"
  handle_payment_mixin :: "string option \<Rightarrow> basket \<Rightarrow> unit io"
  atomic_enter_fault :: "exn option"
  atomic_exit_fault :: "exn option"

text \<open>Running a collaborator for its effect only.\<close>

definition call :: "exn option \<Rightarrow> exn + unit" where
  "call r = (case r of Some e \<Rightarrow> Inl e | None \<Rightarrow> Inr ())"

text \<open>
  \<^verbatim>\<open>QpayCheckView.handle_payment\<close>: the \<^verbatim>\<open>finally\<close> clause sends the segment event
  on every path, and an exception it raises replaces the one in flight.
\<close>

definition handle_payment ::
    "env \<Rightarrow> view_env \<Rightarrow> processor_attr \<Rightarrow> string \<Rightarrow> basket \<Rightarrow> unit io" where
  "handle_payment ev ve pp payment_intent_id b =
     bind_io (lift_io (processor_NAME pp)) (\<lambda>name. (\<lambda>w.
       let properties =
             \<lparr>prop_basket_id = basket_id b, prop_processor_name = name,
              prop_stripe_enabled = False, prop_success = None, prop_payment_error = None,
              prop_total = None\<rparr> in
       case processor_handle_processor_response ev pp payment_intent_id (Some b) w of
         (Inl ex, w1) \<Rightarrow>
           (case track_segment_event ve b
                   (properties\<lparr>prop_success := Some False,
                               prop_payment_error := Some (type_name ex)\<rparr>) of
              Some e \<Rightarrow> (Inl e, w1)
            | None \<Rightarrow> (Inl ex, w1))
       | (Inr hpr, w1) \<Rightarrow>
           (case record_payment ve b hpr of
              Some ex \<Rightarrow>
                (case track_segment_event ve b properties of
                   Some e \<Rightarrow> (Inl e, w1)
                 | None \<Rightarrow> (Inl ex, w1))
            | None \<Rightarrow>
                (case track_segment_event ve b
                        (properties\<lparr>prop_total := Some (total hpr),
                                    prop_success := Some True\<rparr>) of
                   Some e \<Rightarrow> (Inl e, w1)
                 | None \<Rightarrow> (Inr (), w1)))))"

text \<open>\<^verbatim>\<open>QpayCheckView.form_valid\<close>, with \<^verbatim>\<open>basket\<close> and \<^verbatim>\<open>payment_intent_id\<close>
  taken from the form's cleaned data.\<close>

definition form_valid ::
    "env \<Rightarrow> view_env \<Rightarrow> processor_attr \<Rightarrow> basket \<Rightarrow> string \<Rightarrow> http_response io" where
  "form_valid ev ve pp b payment_intent_id =
     bind_io (lift_io (call (add_organization_attribute ve b))) (\<lambda>_.
     bind_io (lift_io (call (add_payment_intent_id_attribute ve b))) (\<lambda>_. (\<lambda>w.
       case handle_payment ev ve pp payment_intent_id b w of
         (Inl e, w1) \<Rightarrow>
           (Inr (JsonResponse (JObj [(''error'', JStr not_paid_message)]) 400), w1)
       | (Inr _, w1) \<Rightarrow>
           (case create_order ve b of
              Some e \<Rightarrow> (Inr (JsonResponse (JObj []) 400), w1)
            | None \<Rightarrow>
                (case get_receipt_page_url ve b of
                   Inl e \<Rightarrow> (Inl e, w1)
                 | Inr url \<Rightarrow> (Inr (JsonResponse (JObj [(''url'', JStr url)]) 201), w1))))))"

text \<open>
  \<^verbatim>\<open>BasketAttribute.objects.get(attribute_type=t, value_text=v)\<close>: the one row that
  matches; no row and several rows are the two exceptions of Django's \<^verbatim>\<open>get\<close>. A
  \<^verbatim>\<open>None\<close> value matches no row, the column being a text column without nulls.
\<close>

definition objects_get :: "basket_attribute list \<Rightarrow> string \<Rightarrow> string option \<Rightarrow> exn + basket_attribute" where
  "objects_get rows t v =
     (case filter (\<lambda>r. attribute_type r = t \<and> Some (value_text r) = v) rows of
        [] \<Rightarrow> Inl ObjectDoesNotExist
      | [r] \<Rightarrow> Inr r
      | _ \<Rightarrow> Inl MultipleObjectsReturned)"

text \<open>\<^verbatim>\<open>QpayAPICheckView._get_basket\<close>: every exception is logged and turned into
  \<^verbatim>\<open>None\<close>.\<close>

definition get_basket_steps :: "view_env \<Rightarrow> string option \<Rightarrow> exn + basket" where
  "get_basket_steps ve payment_intent_id =
     (case call (get_or_create_fault ve) of Inl e \<Rightarrow> Inl e | Inr _ \<Rightarrow>
      case objects_get (attribute_rows ve) (PAYMENT_INTENT_ID_ATTRIBUTE ve) payment_intent_id of
        Inl e \<Rightarrow> Inl e
      | Inr basket_attribute \<Rightarrow>
          let b = attr_basket basket_attribute in
          case call (applicator_apply ve b) of Inl e \<Rightarrow> Inl e | Inr _ \<Rightarrow>
          case api_payment_processor ve of Inl e \<Rightarrow> Inl e | Inr _ \<Rightarrow>
          case call (add_organization_attribute ve b) of Inl e \<Rightarrow> Inl e | Inr _ \<Rightarrow>
          Inr b)"

definition get_basket :: "view_env \<Rightarrow> string option \<Rightarrow> basket option" where
  "get_basket ve payment_intent_id =
     (case get_basket_steps ve payment_intent_id of
        Inl MultipleObjectsReturned \<Rightarrow> None
      | Inl ObjectDoesNotExist \<Rightarrow> None
      | Inl e \<Rightarrow> None
      | Inr b \<Rightarrow> Some b)"

definition error_page_response :: http_response where
  "error_page_response = JsonResponse (JObj []) 400"

definition qpay_error_response :: http_response where
  "qpay_error_response =
     JsonResponse (JObj [(''error_code'', JNum 400), (''user_message'', JStr not_paid_message)]) 400"

definition receipt_page_response :: "view_env \<Rightarrow> basket \<Rightarrow> exn + http_response" where
  "receipt_page_response ve b =
     (case get_receipt_page_url ve b of
        Inl e \<Rightarrow> Inl e
      | Inr url \<Rightarrow> Inr (JsonResponse (JObj [(''receipt_page_url'', JStr url)]) 201))"

text \<open>
  \<^verbatim>\<open>QpayAPICheckView.get\<close>, with \<^verbatim>\<open>payment_intent_id\<close> the query parameter
  \<^verbatim>\<open>qpay_payment_id\<close> (\<^verbatim>\<open>None\<close> when absent). The inner \<^verbatim>\<open>except\<close> answers
  an exception of \<^verbatim>\<open>handle_payment\<close>; the outer one answers an exception of the
  transaction block itself.
\<close>

definition api_get :: "view_env \<Rightarrow> string option \<Rightarrow> http_response io" where
  "api_get ve payment_intent_id w =
     (case get_basket ve payment_intent_id of
        None \<Rightarrow>
          (case error_url ve of
             Inl e \<Rightarrow> (Inl e, w)
           | Inr url \<Rightarrow> (Inr (HttpResponseRedirect url), w))
      | Some b \<Rightarrow>
          (case atomic_enter_fault ve of
             Some e \<Rightarrow> (Inr error_page_response, w)
           | None \<Rightarrow>
               (case handle_payment_mixin ve payment_intent_id b w of (r, w1) \<Rightarrow>
                  (case atomic_exit_fault ve of
                     Some e \<Rightarrow> (Inr error_page_response, w1)
                   | None \<Rightarrow>
                       (case r of
                          Inl e \<Rightarrow> (Inr qpay_error_response, w1)
                        | Inr _ \<Rightarrow>
                            (case call (create_order ve b) of
                               Inl e \<Rightarrow> (Inr error_page_response, w1)
                             | Inr _ \<Rightarrow>
                                 (case call (handle_post_order ve b) of
                                    Inl e \<Rightarrow> (Inr error_page_response, w1)
                                  | Inr _ \<Rightarrow> (receipt_page_response ve b, w1))))))))"

section \<open>The exact conversion, as the specification words it\<close>

text \<open>
  The amount times 100 is the exact fraction \<open>n / d\<close> with \<open>n = 100 * coefficient\<close> and
  \<open>d = 10 ^ (- exponent)\<close>; it is rounded to the nearest integer, a tie going to the even
  neighbour (the rule of the decimal library's integral-value conversion under the default
  context), and written in digits after the sign.
\<close>

definition round_half_even_quotient :: "nat \<Rightarrow> nat \<Rightarrow> nat" where
  "round_half_even_quotient n d =
     (let q = n div d; r = n mod d in
      if 2 * r > d \<or> (2 * r = d \<and> odd q) then q + 1 else q)"

definition minor_units :: "decimal \<Rightarrow> string" where
  "minor_units a =
     (if dec_sign a then ''-'' else '''') @
     str_nat (round_half_even_quotient (dec_int a * 100) (10 ^ nat (- dec_exp a)))"

section \<open>Concrete inputs\<close>

definition example_qpay :: qpay where
  "example_qpay =
     \<lparr>base_url = ''https://gw/'', invoice_code = ''CODE'', client_id = ''id'',
      client_secret = ''secret''\<rparr>"

definition example_world :: world where
  "example_world = \<lparr>sent = [], audit_log = []\<rparr>"

definition example_amount :: decimal where
  "example_amount = \<lparr>dec_sign = False, dec_int = 19995, dec_exp = - 3\<rparr>"

definition example_basket :: basket where
  "example_basket =
     \<lparr>basket_id = 7, order_number = ''ORD-1'', total_incl_tax = example_amount,
      currency = ''MNT'', lines = []\<rparr>"

text \<open>A gateway that hands out the token \<^verbatim>\<open>t\<close> and answers every other request with
  the body \<open>r\<close>; one that is unreachable; an audit table that accepts every row and one
  that refuses every row.\<close>

definition example_gateway :: "json \<Rightarrow> request list \<Rightarrow> request \<Rightarrow> exn + json" where
  "example_gateway r history rq =
     (if req_url rq = ''https://gw/auth/token'' then Inr (JObj [(''access_token'', JStr ''t'')])
      else Inr r)"

definition example_env :: "json \<Rightarrow> env" where
  "example_env r = \<lparr>gateway = example_gateway r, audit_fault = (\<lambda>log row. None)\<rparr>"

definition unreachable_env :: env where
  "unreachable_env =
     \<lparr>gateway = (\<lambda>history rq. Inl (Raised ''ConnectionError'')),
      audit_fault = (\<lambda>log row. None)\<rparr>"

definition audit_down_env :: "json \<Rightarrow> env" where
  "audit_down_env r =
     \<lparr>gateway = example_gateway r, audit_fault = (\<lambda>log row. Some (Raised ''DatabaseError''))\<rparr>"

definition unreachable_audit_down_env :: env where
  "unreachable_audit_down_env =
     \<lparr>gateway = (\<lambda>history rq. Inl (Raised ''ConnectionError'')),
      audit_fault = (\<lambda>log row. Some (Raised ''DatabaseError''))\<rparr>"

definition not_found_body :: json where
  "not_found_body = JObj [(''error'', JStr ''PAYMENT_NOTFOUND'')]"

definition paid_row :: json where
  "paid_row = JObj [(''payment_status'', JStr ''PAID''), (''payment_id'', JStr ''P-1'')]"

definition succeeded_row :: json where
  "succeeded_row = JObj [(''payment_status'', JStr ''PAID''), (''status'', JStr ''succeeded'')]"

definition pending_row :: json where
  "pending_row = JObj [(''payment_status'', JStr ''PAID''), (''status'', JStr ''pending'')]"

definition unpaid_row :: json where
  "unpaid_row = JObj [(''payment_status'', JStr ''NEW'')]"

definition invoice_body :: json where
  "invoice_body =
     JObj [(''invoice_id'', JStr ''INV-1''), (''qPay_shortUrl'', JStr ''https://s/1''),
           (''qr_image'', JStr ''QR'')]"

definition rows_body :: "json list \<Rightarrow> json" where
  "rows_body rows = JObj [(''rows'', JArr rows)]"

text \<open>View collaborators that never fail, over a table of correlation attributes.\<close>

definition example_view_env :: "basket_attribute list \<Rightarrow> view_env" where
  "example_view_env rows =
     \<lparr>record_payment = (\<lambda>b h. None),
      track_segment_event = (\<lambda>b props. None),
      add_organization_attribute = (\<lambda>b. None),
      add_payment_intent_id_attribute = (\<lambda>b. None),
      create_order = (\<lambda>b. None),
      handle_post_order = (\<lambda>b. None),
      get_receipt_page_url = (\<lambda>b. Inr (''/receipt/'' @ order_number b)),
      PAYMENT_INTENT_ID_ATTRIBUTE = ''payment_intent_id'',
      get_or_create_fault = None,
      attribute_rows = rows,
      applicator_apply = (\<lambda>b. None),
      api_payment_processor = Inr example_qpay,
      error_url = Inr ''/error'',
      handle_payment_mixin = (\<lambda>pid b. lift_io (Inr ())),
      atomic_enter_fault = None,
      atomic_exit_fault = None\<rparr>"

definition example_attribute :: "basket \<Rightarrow> basket_attribute" where
  "example_attribute b =
     \<lparr>attribute_type = ''payment_intent_id'', value_text = ''INV-1'', attr_basket = b\<rparr>"

section \<open>Basic facts about the model\<close>

lemma bind_io_lift [simp]:
  "bind_io (lift_io r) f w = (case r of Inl e \<Rightarrow> (Inl e, w) | Inr x \<Rightarrow> f x w)"
  by (simp add: bind_io_def lift_io_def split: sum.splits)

lemmas run_defs =
  handle_processor_response_def check_def token_def refund_def issue_credit_def
  bind_io_def lift_io_def requests_request_def record_processor_response_def
  token_request_def check_request_def refund_request_def check_result_def attr_of_def
  example_env_def example_gateway_def example_qpay_def example_world_def
  unreachable_env_def audit_down_env_def unreachable_audit_down_env_def
  not_found_body_def paid_row_def succeeded_row_def pending_row_def unpaid_row_def
  rows_body_def NOT_PAID_def Let_def

lemma token_ok:
  assumes "gateway ev (sent w) (token_request self) = Inr tres"
    and "getitem tres ''access_token'' = Inr tok"
  shows "token ev self w = (Inr tok, w\<lparr>sent := sent w @ [token_request self]\<rparr>)"
  using assms by (simp add: token_def bind_io_def requests_request_def lift_io_def)

lemma check_audit_log: "audit_log (snd (check ev self order_id w)) = audit_log w"
  by (simp add: check_def token_def bind_io_def requests_request_def lift_io_def
      split: sum.splits prod.splits)

lemma refund_audit_log: "audit_log (snd (refund ev self order_id w)) = audit_log w"
  by (simp add: refund_def token_def bind_io_def requests_request_def lift_io_def
      split: sum.splits prod.splits)

lemma NOT_PAID_status [simp]: "getitem NOT_PAID ''payment_status'' = Inr (JStr ''NOT-PAID'')"
  by (simp add: NOT_PAID_def)

lemma record_processor_response_cases:
  "record_processor_response ev r tid b w =
     (case audit_fault ev (audit_log w)
             \<lparr>ae_transaction_id = tid, ae_response = r, ae_basket = b\<rparr> of
        Some e \<Rightarrow> (Inl e, w)
      | None \<Rightarrow> (Inr (), w\<lparr>audit_log := audit_log w @
                 [\<lparr>ae_transaction_id = tid, ae_response = r, ae_basket = b\<rparr>]\<rparr>))"
  by (simp add: record_processor_response_def Let_def)

section \<open>The status query\<close>

text \<open>On rows that all carry a \<^verbatim>\<open>payment_status\<close>, the loop returns the first row
  whose status is \<^verbatim>\<open>"PAID"\<close>, and the canonical value when there is none.\<close>

lemma scan_rows_find:
  assumes "\<forall>r\<in>set rows. \<exists>v. getitem r ''payment_status'' = Inr v"
  shows "scan_rows rows =
    Inr (case find (\<lambda>r. getitem r ''payment_status'' = Inr (JStr ''PAID'')) rows of
           Some r \<Rightarrow> r | None \<Rightarrow> NOT_PAID)"
  using assms
proof (induction rows)
  case Nil
  then show ?case by simp
next
  case (Cons i rest)
  then obtain v where v: "getitem i ''payment_status'' = Inr v" by auto
  show ?case
  proof (cases "v = JStr ''PAID''")
    case True
    with v show ?thesis by simp
  next
    case False
    with v Cons show ?thesis by simp
  qed
qed




text \<open>
  Claim C4. When the token request yields a token \<open>t\<close> and the gateway answers the status
  query with a dict \<open>res\<close> whose rows (if it does not signal \<^verbatim>\<open>PAYMENT_NOTFOUND\<close>) each
  carry a \<^verbatim>\<open>payment_status\<close>, \<^verbatim>\<open>check\<close> sends exactly two requests, the token request
  and one status query whose \<^verbatim>\<open>offset\<close> is page 1 with limit 100; it returns the first row
  whose \<^verbatim>\<open>payment_status\<close> is \<^verbatim>\<open>"PAID"\<close> if there is one, and the canonical
  \<^verbatim>\<open>{'payment_status': 'NOT-PAID'}\<close> when the response signals \<^verbatim>\<open>PAYMENT_NOTFOUND\<close>
  or no row matches.
\<close>

theorem check_first_page_scan:
  assumes tok: "gateway ev (sent w) (token_request self) = Inr tres"
    and acc: "getitem tres ''access_token'' = Inr (JStr t)"
    and res: "gateway ev (sent w @ [token_request self])
                (check_request self (''Bearer '' @ t) order_id) = Inr res"
    and err: "dict_get res ''error'' = Inr err"
    and rows: "err \<noteq> JStr ''PAYMENT_NOTFOUND'' \<longrightarrow>
                 getitem res ''rows'' = Inr (JArr rows) \<and>
                 (\<forall>r\<in>set rows. \<exists>v. getitem r ''payment_status'' = Inr v)"
  shows "check ev self order_id w =
           (Inr (if err = JStr ''PAYMENT_NOTFOUND'' then NOT_PAID
                 else case find (\<lambda>r. getitem r ''payment_status'' = Inr (JStr ''PAID'')) rows of
                        Some r \<Rightarrow> r | None \<Rightarrow> NOT_PAID),
            w\<lparr>sent := sent w @ [token_request self,
                                 check_request self (''Bearer '' @ t) order_id]\<rparr>)
         \<and> req_data (check_request self (''Bearer '' @ t) order_id) =
             FormData [(''object_type'', FStr ''INVOICE''), (''object_id'', FStr order_id),
                       (''offset'', FDumps (JObj [(''page_number'', JNum 1),
                                                    (''page_limit'', JNum 100)]))]"
proof -
  have t1: "token ev self w = (Inr (JStr t), w\<lparr>sent := sent w @ [token_request self]\<rparr>)"
    using tok acc by (rule token_ok)
  have cr: "check_result res =
      Inr (if err = JStr ''PAYMENT_NOTFOUND'' then NOT_PAID
           else case find (\<lambda>r. getitem r ''payment_status'' = Inr (JStr ''PAID'')) rows of
                  Some r \<Rightarrow> r | None \<Rightarrow> NOT_PAID)"
  proof (cases "err = JStr ''PAYMENT_NOTFOUND''")
    case True
    with err show ?thesis by (simp add: check_result_def)
  next
    case False
    with rows have g: "getitem res ''rows'' = Inr (JArr rows)"
      and wf: "\<forall>r\<in>set rows. \<exists>v. getitem r ''payment_status'' = Inr v" by auto
    from False err g show ?thesis
      by (simp add: check_result_def scan_rows_find[OF wf])
  qed
  have "check ev self order_id w =
      (Inr (if err = JStr ''PAYMENT_NOTFOUND'' then NOT_PAID
            else case find (\<lambda>r. getitem r ''payment_status'' = Inr (JStr ''PAID'')) rows of
                   Some r \<Rightarrow> r | None \<Rightarrow> NOT_PAID),
       w\<lparr>sent := sent w @ [token_request self, check_request self (''Bearer '' @ t) order_id]\<rparr>)"
    unfolding check_def
    using res by (simp add: bind_io_def t1 requests_request_def cr lift_io_def)
  then show ?thesis by (simp add: check_request_def)
qed

text \<open>The second of two rows is the paid one: it is the row returned.\<close>

theorem check_first_page_scan_witness:
  "check (example_env (rows_body [unpaid_row, paid_row])) example_qpay ''INV-1'' example_world =
     (Inr paid_row,
      \<lparr>sent = [token_request example_qpay, check_request example_qpay ''Bearer t'' ''INV-1''],
       audit_log = []\<rparr>)"
proof -
  have tok: "gateway (example_env (rows_body [unpaid_row, paid_row])) (sent example_world)
      (token_request example_qpay) = Inr (JObj [(''access_token'', JStr ''t'')])"
    by (simp add: run_defs)
  have acc: "getitem (JObj [(''access_token'', JStr ''t'')]) ''access_token'' = Inr (JStr ''t'')"
    by simp
  have res: "gateway (example_env (rows_body [unpaid_row, paid_row]))
      (sent example_world @ [token_request example_qpay])
      (check_request example_qpay (''Bearer '' @ ''t'') ''INV-1'') =
        Inr (rows_body [unpaid_row, paid_row])"
    by (simp add: run_defs)
  have err: "dict_get (rows_body [unpaid_row, paid_row]) ''error'' = Inr JNull"
    by (simp add: rows_body_def)
  have rows: "JNull \<noteq> JStr ''PAYMENT_NOTFOUND'' \<longrightarrow>
      getitem (rows_body [unpaid_row, paid_row]) ''rows'' = Inr (JArr [unpaid_row, paid_row]) \<and>
      (\<forall>r\<in>set [unpaid_row, paid_row]. \<exists>v. getitem r ''payment_status'' = Inr v)"
    by (simp add: rows_body_def unpaid_row_def paid_row_def)
  from check_first_page_scan[OF tok acc res err rows]
  show ?thesis by (simp add: example_world_def unpaid_row_def paid_row_def)
qed

section \<open>Confirmation\<close>

text \<open>\<^verbatim>\<open>handle_processor_response\<close> after the status query has returned.\<close>

lemma handle_after_check:
  assumes "check ev self pid w = (cr, w1)"
  shows "handle_processor_response ev self pid b w =
    (case cr of
       Inl e \<Rightarrow> (Inl e, w1)
     | Inr row \<Rightarrow>
        (case getitem row ''payment_status'' of
           Inl e \<Rightarrow> (Inl e, w1)
         | Inr st \<Rightarrow>
            if st = JStr ''NOT-PAID'' then
              (case record_processor_response ev row pid b w1 of
                 (Inl e, w2) \<Rightarrow> (Inl e, w2)
               | (Inr u, w2) \<Rightarrow>
                   (case b of None \<Rightarrow> (Inl AttributeError, w2)
                    | Some bk \<Rightarrow> (Inl OrderNotPaidException, w2)))
            else
              (case getitem row ''status'' of
                 Inl e \<Rightarrow> (Inl e, w1)
               | Inr s \<Rightarrow>
                   if s \<noteq> JStr ''succeeded'' then (Inl AssertionError, w1)
                   else
                     (case record_processor_response ev row pid b w1 of
                        (Inl e, w2) \<Rightarrow> (Inl e, w2)
                      | (Inr u, w2) \<Rightarrow>
                          (case b of None \<Rightarrow> (Inl AttributeError, w2)
                           | Some bk \<Rightarrow>
                               (Inr \<lparr>transaction_id = pid, total = total_incl_tax bk,
                                      hpr_currency = currency bk, card_number = ''Qpay'',
                                      card_type = pid\<rparr>, w2))))))"
  using assms
  by (simp add: handle_processor_response_def bind_io_def lift_io_def attr_of_def
      split: sum.splits prod.splits option.splits)




text \<open>
  Claim C2, amended. When the token request yields a token and the gateway's answer to the
  status query is a dict whose \<^verbatim>\<open>error\<close> is \<^verbatim>\<open>"PAYMENT_NOTFOUND"\<close>, a call with a
  basket, against an audit table that accepts the row, fails with
  \<^verbatim>\<open>OrderNotPaidException\<close> and appends exactly one audit row, whose response is the
  canonical \<^verbatim>\<open>{'payment_status': 'NOT-PAID'}\<close> that \<^verbatim>\<open>check\<close> returned, not the
  gateway's body.
\<close>

theorem not_found_records_canonical_response:
  assumes tok: "gateway ev (sent w) (token_request self) = Inr tres"
    and acc: "getitem tres ''access_token'' = Inr (JStr t)"
    and res: "gateway ev (sent w @ [token_request self])
                (check_request self (''Bearer '' @ t) pid) = Inr res"
    and err: "dict_get res ''error'' = Inr (JStr ''PAYMENT_NOTFOUND'')"
    and ok: "audit_fault ev (audit_log w)
               \<lparr>ae_transaction_id = pid, ae_response = NOT_PAID, ae_basket = Some b\<rparr> = None"
  shows "handle_processor_response ev self pid (Some b) w =
           (Inl OrderNotPaidException,
            w\<lparr>sent := sent w @ [token_request self, check_request self (''Bearer '' @ t) pid],
              audit_log := audit_log w @
                [\<lparr>ae_transaction_id = pid, ae_response = NOT_PAID, ae_basket = Some b\<rparr>]\<rparr>)"
proof -
  have t1: "token ev self w = (Inr (JStr t), w\<lparr>sent := sent w @ [token_request self]\<rparr>)"
    using tok acc by (rule token_ok)
  have cr: "check_result res = Inr NOT_PAID"
    using err by (simp add: check_result_def)
  have chk: "check ev self pid w =
      (Inr NOT_PAID,
       w\<lparr>sent := sent w @ [token_request self, check_request self (''Bearer '' @ t) pid]\<rparr>)"
    unfolding check_def
    using res by (simp add: bind_io_def t1 requests_request_def cr lift_io_def)
  show ?thesis
    using ok by (simp add: handle_after_check[OF chk] record_processor_response_cases)
qed

theorem not_found_records_canonical_response_witness:
  "handle_processor_response (example_env not_found_body) example_qpay ''INV-1''
     (Some example_basket) example_world =
     (Inl OrderNotPaidException,
      \<lparr>sent = [token_request example_qpay, check_request example_qpay ''Bearer t'' ''INV-1''],
       audit_log = [\<lparr>ae_transaction_id = ''INV-1'', ae_response = NOT_PAID,
                     ae_basket = Some example_basket\<rparr>]\<rparr>)"
proof -
  have tok: "gateway (example_env not_found_body) (sent example_world)
      (token_request example_qpay) = Inr (JObj [(''access_token'', JStr ''t'')])"
    by (simp add: run_defs)
  have acc: "getitem (JObj [(''access_token'', JStr ''t'')]) ''access_token'' = Inr (JStr ''t'')"
    by simp
  have res: "gateway (example_env not_found_body)
      (sent example_world @ [token_request example_qpay])
      (check_request example_qpay (''Bearer '' @ ''t'') ''INV-1'') = Inr not_found_body"
    by (simp add: run_defs)
  have err: "dict_get not_found_body ''error'' = Inr (JStr ''PAYMENT_NOTFOUND'')"
    by (simp add: not_found_body_def)
  have ok: "audit_fault (example_env not_found_body) (audit_log example_world)
      \<lparr>ae_transaction_id = ''INV-1'', ae_response = NOT_PAID,
        ae_basket = Some example_basket\<rparr> = None"
    by (simp add: example_env_def)
  from not_found_records_canonical_response[OF tok acc res err ok]
  show ?thesis by (simp add: example_world_def)
qed

text \<open>
  Against claim C2 as stated: the gateway's body is \<^verbatim>\<open>{'error': 'PAYMENT_NOTFOUND'}\<close>;
  the call fails with \<^verbatim>\<open>OrderNotPaidException\<close>, and the responses in the audit table
  are not that body.
\<close>

theorem not_found_body_is_not_recorded:
  "fst (handle_processor_response (example_env not_found_body) example_qpay ''INV-1''
          (Some example_basket) example_world) = Inl OrderNotPaidException
   \<and> map ae_response (audit_log (snd (handle_processor_response (example_env not_found_body)
          example_qpay ''INV-1'' (Some example_basket) example_world))) \<noteq> [not_found_body]
   \<and> map ae_response (audit_log (snd (handle_processor_response (example_env not_found_body)
          example_qpay ''INV-1'' (Some example_basket) example_world))) =
       [JObj [(''payment_status'', JStr ''NOT-PAID'')]]"
  by (simp add: run_defs)

text \<open>
  Claim C3. When \<^verbatim>\<open>check\<close> reports a row whose \<^verbatim>\<open>payment_status\<close> is \<^verbatim>\<open>"PAID"\<close>,
  \<^verbatim>\<open>handle_processor_response\<close> returns a payment record only if the row's
  \<^verbatim>\<open>status\<close> reads \<^verbatim>\<open>"succeeded"\<close>. If the slot holds anything else, the
  \<^verbatim>\<open>assert\<close> raises \<^verbatim>\<open>AssertionError\<close>; if the slot is absent, evaluating the
  \<^verbatim>\<open>assert\<close> raises \<^verbatim>\<open>KeyError\<close>. Either way the call fails there: no payment
  record is built and nothing has been written to the audit table.
\<close>

theorem paid_row_status_guard:
  assumes chk: "check ev self pid w = (Inr row, w1)"
    and paid: "getitem row ''payment_status'' = Inr (JStr ''PAID'')"
  shows "(\<forall>rec w'. handle_processor_response ev self pid b w = (Inr rec, w') \<longrightarrow>
            getitem row ''status'' = Inr (JStr ''succeeded''))
       \<and> ((\<exists>s. getitem row ''status'' = Inr s \<and> s \<noteq> JStr ''succeeded'') \<longrightarrow>
            handle_processor_response ev self pid b w = (Inl AssertionError, w1))
       \<and> ((\<forall>s. getitem row ''status'' \<noteq> Inr s) \<longrightarrow>
            handle_processor_response ev self pid b w = (Inl (KeyError ''status''), w1))
       \<and> audit_log w1 = audit_log w"
proof -
  have al: "audit_log w1 = audit_log w"
    using check_audit_log[of ev self pid w] chk by simp
  obtain kvs where row: "row = JObj kvs"
    using paid by (cases row) simp_all
  have absent: "(\<forall>s. getitem row ''status'' \<noteq> Inr s) \<longrightarrow>
      getitem row ''status'' = Inl (KeyError ''status'')"
    unfolding row by (simp split: option.splits)
  from paid absent al show ?thesis
    by (auto simp: handle_after_check[OF chk] split: sum.splits prod.splits option.splits)
qed

theorem paid_row_status_guard_witness:
  "handle_processor_response (example_env (rows_body [pending_row])) example_qpay ''INV-1''
     (Some example_basket) example_world =
     (Inl AssertionError,
      \<lparr>sent = [token_request example_qpay, check_request example_qpay ''Bearer t'' ''INV-1''],
       audit_log = []\<rparr>)"
proof -
  have chk: "check (example_env (rows_body [pending_row])) example_qpay ''INV-1'' example_world =
     (Inr pending_row,
      \<lparr>sent = [token_request example_qpay, check_request example_qpay ''Bearer t'' ''INV-1''],
       audit_log = []\<rparr>)"
    by (simp add: run_defs)
  have paid: "getitem pending_row ''payment_status'' = Inr (JStr ''PAID'')"
    by (simp add: pending_row_def)
  have slot: "\<exists>s. getitem pending_row ''status'' = Inr s \<and> s \<noteq> JStr ''succeeded''"
    by (simp add: pending_row_def)
  from paid_row_status_guard[OF chk paid, of "Some example_basket"] slot
  show ?thesis by blast
qed

section \<open>Refunds\<close>

text \<open>
  Claim C6, amended. When the refund call fails with an exception and the audit table
  accepts the row, \<^verbatim>\<open>issue_credit\<close> appends exactly one audit row, whose response is
  the empty dict, and fails with that same exception; the refund call itself writes nothing
  to the audit table.
\<close>

theorem issue_credit_failure_recorded_and_reraised:
  assumes failed: "refund ev self reference_number w = (Inl e, w1)"
    and ok: "audit_fault ev (audit_log w1)
               \<lparr>ae_transaction_id = reference_number, ae_response = JObj [], ae_basket = b\<rparr> = None"
  shows "issue_credit ev self order_no b reference_number amount cur w =
           (Inl e, w1\<lparr>audit_log := audit_log w @
              [\<lparr>ae_transaction_id = reference_number, ae_response = JObj [], ae_basket = b\<rparr>]\<rparr>)
         \<and> audit_log w1 = audit_log w"
proof -
  have al: "audit_log w1 = audit_log w"
    using refund_audit_log[of ev self reference_number w] failed by simp
  show ?thesis
    using failed ok al
    by (simp add: issue_credit_def record_processor_response_cases)
qed

text \<open>The gateway is unreachable: the connection error reaches the caller, after the row.\<close>

theorem issue_credit_failure_recorded_and_reraised_witness:
  "issue_credit unreachable_env example_qpay ''ORD-1'' (Some example_basket) ''INV-1''
     example_amount ''MNT'' example_world =
     (Inl (Raised ''ConnectionError''),
      \<lparr>sent = [token_request example_qpay],
       audit_log = [\<lparr>ae_transaction_id = ''INV-1'', ae_response = JObj [],
                     ae_basket = Some example_basket\<rparr>]\<rparr>)"
proof -
  have failed: "refund unreachable_env example_qpay ''INV-1'' example_world =
      (Inl (Raised ''ConnectionError''), \<lparr>sent = [token_request example_qpay], audit_log = []\<rparr>)"
    by (simp add: run_defs)
  have ok: "audit_fault unreachable_env
      (audit_log \<lparr>sent = [token_request example_qpay], audit_log = []\<rparr>)
      \<lparr>ae_transaction_id = ''INV-1'', ae_response = JObj [],
        ae_basket = Some example_basket\<rparr> = None"
    by (simp add: unreachable_env_def)
  from issue_credit_failure_recorded_and_reraised[OF failed ok]
  show ?thesis by (simp add: example_world_def)
qed

text \<open>
  Against claim C6 as stated: the gateway is unreachable, so the refund call fails with a
  connection error, and the audit table refuses the row. No audit row is written and the
  caller does not observe the connection error.
\<close>

theorem failed_refund_unrecorded_when_audit_refuses:
  "fst (refund unreachable_audit_down_env example_qpay ''INV-1'' example_world) =
     Inl (Raised ''ConnectionError'')
   \<and> audit_log (snd (issue_credit unreachable_audit_down_env example_qpay ''ORD-1''
          (Some example_basket) ''INV-1'' example_amount ''MNT'' example_world)) = []
   \<and> fst (issue_credit unreachable_audit_down_env example_qpay ''ORD-1''
          (Some example_basket) ''INV-1'' example_amount ''MNT'' example_world) =
       Inl (Raised ''DatabaseError'')"
  by (simp add: run_defs)

section \<open>A failing audit write\<close>

text \<open>
  Claim C7, amended. When the audit write itself fails, its exception is what the caller
  observes: on the not-paid path of \<^verbatim>\<open>handle_processor_response\<close> it is raised in place
  of \<^verbatim>\<open>OrderNotPaidException\<close>, and in the handler of \<^verbatim>\<open>issue_credit\<close> it is raised
  in place of the refund's exception. In both cases no audit row is written.
\<close>

theorem audit_failure_reaches_caller:
  "(check ev self pid w = (Inr NOT_PAID, w1) \<and>
    audit_fault ev (audit_log w1)
      \<lparr>ae_transaction_id = pid, ae_response = NOT_PAID, ae_basket = b\<rparr> = Some e' \<longrightarrow>
    handle_processor_response ev self pid b w = (Inl e', w1))
   \<and> (refund ev self reference_number w = (Inl e, w2) \<and>
       audit_fault ev (audit_log w2)
         \<lparr>ae_transaction_id = reference_number, ae_response = JObj [], ae_basket = b\<rparr> = Some e' \<longrightarrow>
       issue_credit ev self order_no b reference_number amount cur w = (Inl e', w2))"
proof (intro conjI impI)
  assume a: "check ev self pid w = (Inr NOT_PAID, w1) \<and>
    audit_fault ev (audit_log w1)
      \<lparr>ae_transaction_id = pid, ae_response = NOT_PAID, ae_basket = b\<rparr> = Some e'"
  then have chk: "check ev self pid w = (Inr NOT_PAID, w1)" by simp
  from a show "handle_processor_response ev self pid b w = (Inl e', w1)"
    by (simp add: handle_after_check[OF chk] record_processor_response_cases)
next
  assume "refund ev self reference_number w = (Inl e, w2) \<and>
       audit_fault ev (audit_log w2)
         \<lparr>ae_transaction_id = reference_number, ae_response = JObj [], ae_basket = b\<rparr> = Some e'"
  then show "issue_credit ev self order_no b reference_number amount cur w = (Inl e', w2)"
    by (simp add: issue_credit_def record_processor_response_cases)
qed

theorem audit_failure_reaches_caller_witness:
  "handle_processor_response (audit_down_env not_found_body) example_qpay ''INV-1''
     (Some example_basket) example_world =
     (Inl (Raised ''DatabaseError''),
      \<lparr>sent = [token_request example_qpay, check_request example_qpay ''Bearer t'' ''INV-1''],
       audit_log = []\<rparr>)
   \<and> issue_credit unreachable_audit_down_env example_qpay ''ORD-1'' (Some example_basket)
       ''INV-1'' example_amount ''MNT'' example_world =
     (Inl (Raised ''DatabaseError''),
      \<lparr>sent = [token_request example_qpay], audit_log = []\<rparr>)"
proof -
  have chk: "check (audit_down_env not_found_body) example_qpay ''INV-1'' example_world =
     (Inr NOT_PAID,
      \<lparr>sent = [token_request example_qpay, check_request example_qpay ''Bearer t'' ''INV-1''],
       audit_log = []\<rparr>)"
    by (simp add: run_defs)
  have f1: "audit_fault (audit_down_env not_found_body)
      (audit_log \<lparr>sent = [token_request example_qpay,
                           check_request example_qpay ''Bearer t'' ''INV-1''], audit_log = []\<rparr>)
      \<lparr>ae_transaction_id = ''INV-1'', ae_response = NOT_PAID,
        ae_basket = Some example_basket\<rparr> = Some (Raised ''DatabaseError'')"
    by (simp add: audit_down_env_def)
  have failed: "refund unreachable_audit_down_env example_qpay ''INV-1'' example_world =
      (Inl (Raised ''ConnectionError''), \<lparr>sent = [token_request example_qpay], audit_log = []\<rparr>)"
    by (simp add: run_defs)
  have f2: "audit_fault unreachable_audit_down_env
      (audit_log \<lparr>sent = [token_request example_qpay], audit_log = []\<rparr>)
      \<lparr>ae_transaction_id = ''INV-1'', ae_response = JObj [],
        ae_basket = Some example_basket\<rparr> = Some (Raised ''DatabaseError'')"
    by (simp add: unreachable_audit_down_env_def)
  from audit_failure_reaches_caller[of "audit_down_env not_found_body" example_qpay "''INV-1''"
      example_world _ "Some example_basket" "Raised ''DatabaseError''"] chk f1
  have a: "handle_processor_response (audit_down_env not_found_body) example_qpay ''INV-1''
     (Some example_basket) example_world =
     (Inl (Raised ''DatabaseError''),
      \<lparr>sent = [token_request example_qpay, check_request example_qpay ''Bearer t'' ''INV-1''],
       audit_log = []\<rparr>)"
    by blast
  from audit_failure_reaches_caller[of unreachable_audit_down_env example_qpay _
      example_world _ "Some example_basket" "Raised ''DatabaseError''" "''INV-1''"
      "Raised ''ConnectionError''" _ "''ORD-1''" example_amount "''MNT''"] failed f2
  have b: "issue_credit unreachable_audit_down_env example_qpay ''ORD-1'' (Some example_basket)
       ''INV-1'' example_amount ''MNT'' example_world =
     (Inl (Raised ''DatabaseError''),
      \<lparr>sent = [token_request example_qpay], audit_log = []\<rparr>)"
    by blast
  from a b show ?thesis by simp
qed

text \<open>
  Against claim C7 as stated: the audit table refuses the row. On the not-paid path the
  caller does not observe \<^verbatim>\<open>OrderNotPaidException\<close>, and on the refund path the caller
  does not observe the connection error the refund call failed with.
\<close>

theorem audit_failure_masks_original_failure:
  "fst (check (audit_down_env not_found_body) example_qpay ''INV-1'' example_world) =
     Inr NOT_PAID
   \<and> fst (handle_processor_response (audit_down_env not_found_body) example_qpay ''INV-1''
          (Some example_basket) example_world) \<noteq> Inl OrderNotPaidException
   \<and> fst (refund unreachable_audit_down_env example_qpay ''INV-1'' example_world) =
       Inl (Raised ''ConnectionError'')
   \<and> fst (issue_credit unreachable_audit_down_env example_qpay ''ORD-1'' (Some example_basket)
          ''INV-1'' example_amount ''MNT'' example_world) \<noteq> Inl (Raised ''ConnectionError'')"
  by (simp add: run_defs)

section \<open>The capture context of an empty basket\<close>

text \<open>
  Claim C10. For a basket without lines, \<^verbatim>\<open>get_capture_context\<close> builds the default
  response with the keys \<^verbatim>\<open>invoice_id\<close>, \<^verbatim>\<open>qr_code\<close> and \<^verbatim>\<open>qr_link\<close>, then reads
  \<^verbatim>\<open>qPay_shortUrl\<close> from it: the call raises \<^verbatim>\<open>KeyError\<close>, sends no request and
  returns no capture context.
\<close>

theorem empty_basket_capture_context_key_error:
  assumes "lines b = []"
  shows "get_capture_context ev add_attribute self (Inr b) w = (Inl (KeyError ''qPay_shortUrl''), w)
         \<and> map fst (case empty_qpay_response of JObj kvs \<Rightarrow> kvs | _ \<Rightarrow> []) =
             [''invoice_id'', ''qr_code'', ''qr_link'']
         \<and> getitem empty_qpay_response ''qr_image'' = Inl (KeyError ''qr_image'')"
  using assms by (simp add: get_capture_context_def empty_qpay_response_def)

theorem empty_basket_capture_context_key_error_witness:
  "get_capture_context (example_env not_found_body) (\<lambda>b t. None) example_qpay
     (Inr example_basket) example_world = (Inl (KeyError ''qPay_shortUrl''), example_world)"
proof -
  have "lines example_basket = []" by (simp add: example_basket_def)
  from empty_basket_capture_context_key_error[OF this] show ?thesis by blast
qed

section \<open>The callback view\<close>

lemma objects_get_several:
  assumes "1 < length (filter (\<lambda>r. attribute_type r = t \<and> Some (value_text r) = v) rows)"
  shows "objects_get rows t v = Inl MultipleObjectsReturned"
proof -
  obtain x y zs where "filter (\<lambda>r. attribute_type r = t \<and> Some (value_text r) = v) rows = x # y # zs"
    using assms
    by (cases "filter (\<lambda>r. attribute_type r = t \<and> Some (value_text r) = v) rows" rule: list.exhaust;
        simp; metis length_0_conv less_irrefl_nat list.exhaust)
  then show ?thesis by (simp add: objects_get_def)
qed

text \<open>
  Claim C8. When more than one basket attribute of the correlation type carries the
  callback's invoice id, the lookup raises \<^verbatim>\<open>MultipleObjectsReturned\<close>,
  \<^verbatim>\<open>_get_basket\<close> returns \<^verbatim>\<open>None\<close>, and \<^verbatim>\<open>get\<close> answers with the redirect to the
  processor's error URL, leaving the state as it was; the answer is the same whatever
  \<^verbatim>\<open>handle_payment\<close> would do, which is therefore not invoked.
\<close>

theorem duplicate_correlation_is_an_error:
  assumes dup: "1 < length (filter (\<lambda>r. attribute_type r = PAYMENT_INTENT_ID_ATTRIBUTE ve \<and>
                                        value_text r = pid) (attribute_rows ve))"
    and url: "error_url ve = Inr url"
  shows "(get_or_create_fault ve = None \<longrightarrow>
            get_basket_steps ve (Some pid) = Inl MultipleObjectsReturned)
       \<and> get_basket ve (Some pid) = None
       \<and> (\<forall>hp. api_get (ve\<lparr>handle_payment_mixin := hp\<rparr>) (Some pid) w =
                  (Inr (HttpResponseRedirect url), w))
       \<and> api_get ve (Some pid) w = (Inr (HttpResponseRedirect url), w)"
proof -
  have several: "objects_get (attribute_rows ve) (PAYMENT_INTENT_ID_ATTRIBUTE ve) (Some pid) =
      Inl MultipleObjectsReturned"
    using dup by (intro objects_get_several) simp
  have steps: "\<exists>e. get_basket_steps ve (Some pid) = Inl e"
    by (simp add: get_basket_steps_def several call_def split: option.splits)
  then have none: "get_basket ve (Some pid) = None"
    by (auto simp: get_basket_def split: exn.splits)
  have indep: "get_basket (ve\<lparr>handle_payment_mixin := hp\<rparr>) (Some pid) = get_basket ve (Some pid)"
    for hp
    by (simp add: get_basket_def get_basket_steps_def Let_def call_def
        split: sum.splits option.splits)
  show ?thesis
    using none url indep
    by (simp add: api_get_def get_basket_steps_def several call_def)
qed

theorem duplicate_correlation_is_an_error_witness:
  "api_get (example_view_env [example_attribute example_basket,
                              example_attribute (example_basket\<lparr>basket_id := 8\<rparr>)])
     (Some ''INV-1'') example_world = (Inr (HttpResponseRedirect ''/error''), example_world)"
proof -
  have dup: "1 < length (filter (\<lambda>r. attribute_type r = PAYMENT_INTENT_ID_ATTRIBUTE
        (example_view_env [example_attribute example_basket,
                           example_attribute (example_basket\<lparr>basket_id := 8\<rparr>)]) \<and>
      value_text r = ''INV-1'')
      (attribute_rows (example_view_env [example_attribute example_basket,
                           example_attribute (example_basket\<lparr>basket_id := 8\<rparr>)])))"
    by (simp add: example_view_env_def example_attribute_def)
  have url: "error_url (example_view_env [example_attribute example_basket,
                           example_attribute (example_basket\<lparr>basket_id := 8\<rparr>)]) = Inr ''/error''"
    by (simp add: example_view_env_def)
  from duplicate_correlation_is_an_error[OF dup url] show ?thesis by blast
qed

section \<open>The responses of the views\<close>

text \<open>
  Claim C9, amended. Every response \<^verbatim>\<open>QpayCheckView.form_valid\<close> returns is a JSON body
  with status 201 carrying the receipt URL, or with status 400 carrying the user-facing
  message or nothing. Every response \<^verbatim>\<open>QpayAPICheckView.get\<close> returns is a JSON body
  with status 201 carrying the receipt URL, a JSON body with status 400 carrying an error
  code and the user-facing message or nothing, or, when the callback's basket cannot be
  resolved, the redirect (status 302) to the processor's error URL.
\<close>

theorem view_response_surface:
  "(\<forall>r w'. form_valid ev ve pp b pid w = (Inr r, w') \<longrightarrow>
      ((\<exists>url. r = JsonResponse (JObj [(''url'', JStr url)]) 201) \<or>
       r = JsonResponse (JObj [(''error'', JStr not_paid_message)]) 400 \<or>
       r = JsonResponse (JObj []) 400)
      \<and> (status_code r = 201 \<or> status_code r = 400))
   \<and> (\<forall>r w'. api_get ve qid w = (Inr r, w') \<longrightarrow>
      ((\<exists>url. r = JsonResponse (JObj [(''receipt_page_url'', JStr url)]) 201) \<or>
       r = JsonResponse (JObj [(''error_code'', JNum 400),
                               (''user_message'', JStr not_paid_message)]) 400 \<or>
       r = JsonResponse (JObj []) 400 \<or>
       (\<exists>u. r = HttpResponseRedirect u \<and> error_url ve = Inr u \<and> get_basket ve qid = None))
      \<and> (status_code r = 201 \<or> status_code r = 400 \<or>
           (status_code r = 302 \<and> get_basket ve qid = None)))"
proof (intro conjI allI impI)
  fix r w'
  assume "form_valid ev ve pp b pid w = (Inr r, w')"
  then have "(\<exists>url. r = JsonResponse (JObj [(''url'', JStr url)]) 201) \<or>
      r = JsonResponse (JObj [(''error'', JStr not_paid_message)]) 400 \<or>
      r = JsonResponse (JObj []) 400"
    by (auto simp: form_valid_def call_def split: option.splits sum.splits prod.splits)
  then show "(\<exists>url. r = JsonResponse (JObj [(''url'', JStr url)]) 201) \<or>
      r = JsonResponse (JObj [(''error'', JStr not_paid_message)]) 400 \<or>
      r = JsonResponse (JObj []) 400"
    and "status_code r = 201 \<or> status_code r = 400"
    by auto
next
  fix r w'
  assume "api_get ve qid w = (Inr r, w')"
  then have "(\<exists>url. r = JsonResponse (JObj [(''receipt_page_url'', JStr url)]) 201) \<or>
      r = JsonResponse (JObj [(''error_code'', JNum 400),
                              (''user_message'', JStr not_paid_message)]) 400 \<or>
      r = JsonResponse (JObj []) 400 \<or>
      (\<exists>u. r = HttpResponseRedirect u \<and> error_url ve = Inr u \<and> get_basket ve qid = None)"
    by (auto simp: api_get_def call_def error_page_response_def qpay_error_response_def
        receipt_page_response_def split: option.splits sum.splits prod.splits)
  then show "(\<exists>url. r = JsonResponse (JObj [(''receipt_page_url'', JStr url)]) 201) \<or>
      r = JsonResponse (JObj [(''error_code'', JNum 400),
                              (''user_message'', JStr not_paid_message)]) 400 \<or>
      r = JsonResponse (JObj []) 400 \<or>
      (\<exists>u. r = HttpResponseRedirect u \<and> error_url ve = Inr u \<and> get_basket ve qid = None)"
    and "status_code r = 201 \<or> status_code r = 400 \<or>
           (status_code r = 302 \<and> get_basket ve qid = None)"
    by auto
qed

theorem view_response_surface_witness:
  "api_get (example_view_env [example_attribute example_basket]) (Some ''INV-1'') example_world =
     (Inr (JsonResponse (JObj [(''receipt_page_url'', JStr ''/receipt/ORD-1'')]) 201),
      example_world)
   \<and> form_valid (example_env (rows_body [succeeded_row])) (example_view_env [])
       QpayCheckView_payment_processor example_basket ''INV-1'' example_world =
     (Inr (JsonResponse (JObj [(''error'', JStr not_paid_message)]) 400), example_world)"
proof -
  have a: "api_get (example_view_env [example_attribute example_basket]) (Some ''INV-1'')
      example_world =
     (Inr (JsonResponse (JObj [(''receipt_page_url'', JStr ''/receipt/ORD-1'')]) 201),
      example_world)"
    by (simp add: api_get_def get_basket_def get_basket_steps_def objects_get_def call_def
        lift_io_def example_view_env_def example_attribute_def example_basket_def
        receipt_page_response_def)
  have b: "form_valid (example_env (rows_body [succeeded_row])) (example_view_env [])
       QpayCheckView_payment_processor example_basket ''INV-1'' example_world =
     (Inr (JsonResponse (JObj [(''error'', JStr not_paid_message)]) 400), example_world)"
    by (simp add: form_valid_def handle_payment_def call_def example_view_env_def
        QpayCheckView_payment_processor_def)
  from view_response_surface[of "example_env (rows_body [succeeded_row])" "example_view_env []"
      QpayCheckView_payment_processor example_basket "''INV-1''" example_world None]
  have "\<forall>r w'. form_valid (example_env (rows_body [succeeded_row])) (example_view_env [])
       QpayCheckView_payment_processor example_basket ''INV-1'' example_world = (Inr r, w') \<longrightarrow>
      status_code r = 201 \<or> status_code r = 400"
    by blast
  with a b show ?thesis by simp
qed

text \<open>
  Against claim C9 as stated: no basket attribute carries the callback's invoice id;
  \<^verbatim>\<open>get\<close> answers with a redirect, whose status is neither 201 nor 400.
\<close>

theorem unresolved_basket_is_redirected:
  "api_get (example_view_env []) (Some ''INV-1'') example_world =
     (Inr (HttpResponseRedirect ''/error''), example_world)
   \<and> status_code (HttpResponseRedirect ''/error'') \<noteq> 201
   \<and> status_code (HttpResponseRedirect ''/error'') \<noteq> 400"
  by (simp add: api_get_def get_basket_def get_basket_steps_def objects_get_def call_def
      example_view_env_def)

section \<open>The amount sent to the gateway\<close>

lemma str_nat_nonempty: "str_nat n \<noteq> []"
  by (subst str_nat.simps) simp

lemma str_nat_upper: "n < 10 ^ length (str_nat n)"
proof (induction n rule: str_nat.induct)
  case (1 n)
  show ?case
  proof (cases "n < 10")
    case True
    then show ?thesis by (subst str_nat.simps) simp
  next
    case False
    with 1 have ih: "n div 10 < 10 ^ length (str_nat (n div 10))" by simp
    have "n < 10 * (n div 10 + 1)" by simp
    also from ih have "\<dots> \<le> 10 * 10 ^ length (str_nat (n div 10))" by simp
    finally show ?thesis using False by (subst str_nat.simps) simp
  qed
qed

lemma str_nat_lower: "0 < n \<Longrightarrow> 10 ^ (length (str_nat n) - 1) \<le> n"
proof (induction n rule: str_nat.induct)
  case (1 n)
  show ?case
  proof (cases "n < 10")
    case True
    with 1(2) show ?thesis by (subst str_nat.simps) simp
  next
    case False
    then have pos: "0 < n div 10" by simp
    with 1(1) False have ih: "10 ^ (length (str_nat (n div 10)) - 1) \<le> n div 10" by simp
    have ne: "length (str_nat (n div 10)) \<noteq> 0" using str_nat_nonempty by simp
    have "length (str_nat n) - 1 = Suc (length (str_nat (n div 10)) - 1)"
      using False ne by (subst str_nat.simps) simp
    moreover have "10 * 10 ^ (length (str_nat (n div 10)) - 1) \<le> n"
      using ih by simp
    ultimately show ?thesis by simp
  qed
qed

text \<open>A number below \<open>10 ^ m\<close> has at most \<open>m\<close> digits.\<close>

lemma str_nat_length_le:
  assumes "n < 10 ^ m"
  shows "length (str_nat n) \<le> max 1 m"
proof (cases "n = 0")
  case True
  then show ?thesis by (subst str_nat.simps) simp
next
  case False
  then have "(10::nat) ^ (length (str_nat n) - 1) \<le> n" using str_nat_lower[of n] by simp
  from this assms have "(10::nat) ^ (length (str_nat n) - 1) < 10 ^ m" by (rule le_less_trans)
  then have "length (str_nat n) - 1 < m" by simp
  then show ?thesis by simp
qed

text \<open>The first dropped digit decides on which side of the half the dropped part lies.\<close>

lemma first_dropped_digit:
  fixes c :: nat
  assumes "0 < k"
  shows "(5 \<le> (c div 10 ^ (k - 1)) mod 10) = (10 ^ k \<le> 2 * (c mod 10 ^ k))"
    and "(c mod 10 ^ k = 5 * 10 ^ (k - 1)) = (2 * (c mod 10 ^ k) = 10 ^ k)"
proof -
  define P :: nat where "P = 10 ^ (k - 1)"
  define t where "t = (c div P) mod 10"
  define s where "s = c mod P"
  have P: "0 < P" by (simp add: P_def)
  have k: "(10::nat) ^ k = 10 * P"
    using assms by (cases k) (simp_all add: P_def)
  have r: "c mod (10 * P) = P * t + s"
    using mod_mult2_eq[of c P 10] by (simp add: t_def s_def mult.commute)
  have s: "s < P" using P by (simp add: s_def)
  show "(5 \<le> (c div 10 ^ (k - 1)) mod 10) = (10 ^ k \<le> 2 * (c mod 10 ^ k))"
  proof
    assume "5 \<le> (c div 10 ^ (k - 1)) mod 10"
    then have "5 \<le> t" by (simp add: t_def P_def)
    then have "5 * P \<le> P * t" by simp
    then show "10 ^ k \<le> 2 * (c mod 10 ^ k)" unfolding k r by arith
  next
    assume a: "10 ^ k \<le> 2 * (c mod 10 ^ k)"
    show "5 \<le> (c div 10 ^ (k - 1)) mod 10"
    proof (rule ccontr)
      assume "\<not> 5 \<le> (c div 10 ^ (k - 1)) mod 10"
      then have "t \<le> 4" by (simp add: t_def P_def)
      then have "P * t \<le> 4 * P" by simp
      with s have "2 * (P * t + s) < 10 * P" by arith
      with a show False unfolding k r by arith
    qed
  qed
  show "(c mod 10 ^ k = 5 * 10 ^ (k - 1)) = (2 * (c mod 10 ^ k) = 10 ^ k)"
    unfolding k P_def[symmetric] by auto
qed

text \<open>Rescaling to exponent 0 when every digit is dropped: the result is zero.\<close>

lemma rescale_all_dropped:
  assumes c: "c \<noteq> 0" and k: "0 < k" and short: "length (str_nat c) < k"
  shows "rescale \<lparr>dec_sign = s, dec_int = c, dec_exp = - int k\<rparr> 0 =
           \<lparr>dec_sign = s, dec_int = 0, dec_exp = 0\<rparr>"
    and "round_half_even_quotient c (10 ^ k) = 0"
proof -
  have one: "str_nat (Suc 0) = [digit_char 1]" by (subst str_nat.simps) simp
  have half: "round_half_even (Suc 0) 0 = - 1"
    by (simp add: round_half_even_def round_half_up_def one Let_def)
  have kept: "keep_digits (Suc 0) 0 = 0"
    by (simp add: keep_digits_def one)
  have neg: "int (length (str_nat c)) - int k < 0" using short by simp
  show "rescale \<lparr>dec_sign = s, dec_int = c, dec_exp = - int k\<rparr> 0 =
           \<lparr>dec_sign = s, dec_int = 0, dec_exp = 0\<rparr>"
    using c k neg by (simp add: rescale_def Let_def half kept)
  have "c < 10 ^ length (str_nat c)" by (rule str_nat_upper)
  moreover have "(10::nat) ^ length (str_nat c) \<le> 10 ^ (k - 1)"
    using short by (intro power_increasing) simp_all
  ultimately have small: "c < 10 ^ (k - 1)" by (rule less_le_trans)
  have "(10::nat) ^ k = 10 * 10 ^ (k - 1)" using k by (cases k) simp_all
  with small have two: "2 * c < 10 ^ k" by simp
  then have "c < 10 ^ k" by simp
  with two show "round_half_even_quotient c (10 ^ k) = 0"
    by (simp add: round_half_even_quotient_def Let_def)
qed

text \<open>Rescaling to exponent 0 when \<open>k\<close> of the digits are dropped: the half-even quotient.\<close>

lemma rescale_some_dropped:
  assumes c: "c \<noteq> 0" and k: "0 < k" and long: "k \<le> length (str_nat c)"
  shows "rescale \<lparr>dec_sign = s, dec_int = c, dec_exp = - int k\<rparr> 0 =
           \<lparr>dec_sign = s, dec_int = round_half_even_quotient c (10 ^ k), dec_exp = 0\<rparr>"
proof -
  define nd where "nd = length (str_nat c)"
  define q where "q = c div 10 ^ k"
  define r where "r = c mod 10 ^ k"
  have ge: "k \<le> nd" using long by (simp add: nd_def)
  have dropped: "nd - (nd - k) = k" using ge by simp
  have up: "c < 10 ^ nd" unfolding nd_def by (rule str_nat_upper)
  have evq: "(nd - k = 0 \<or> even (q mod 10)) = even q"
  proof (cases "nd - k = 0")
    case True
    with ge have "nd = k" by simp
    with up have "q = 0" by (simp add: q_def)
    with True show ?thesis by simp
  next
    case False
    have "even (q mod 10) = even q" by (rule dvd_mod_iff) simp
    with False show ?thesis by simp
  qed
  have tie: "(r = 5 * 10 ^ (k - 1)) = (2 * r = 10 ^ k)"
    unfolding r_def by (rule first_dropped_digit(2)[OF k])
  have half: "round_half_even c (nd - k) =
      (if 2 * r = 10 ^ k \<and> even q then - 1
       else if 10 ^ k \<le> 2 * r then 1
       else if r = 0 then 0 else - 1)"
    unfolding round_half_even_def round_half_up_def nd_def[symmetric] Let_def dropped
      first_dropped_digit(1)[OF k] q_def[symmetric] r_def[symmetric] evq tie ..
  have kept: "keep_digits c (nd - k) = q"
    unfolding keep_digits_def nd_def[symmetric] dropped q_def ..
  have digits: "\<not> nd < k" "nat (int nd - int k) = nd - k"
    using ge by simp_all
  have "rescale \<lparr>dec_sign = s, dec_int = c, dec_exp = - int k\<rparr> 0 =
      \<lparr>dec_sign = s, dec_int = (if round_half_even c (nd - k) = 1 then q + 1 else q),
        dec_exp = 0\<rparr>"
    using c k by (simp add: rescale_def Let_def nd_def[symmetric] digits kept)
  moreover have "(if round_half_even c (nd - k) = 1 then q + 1 else q) =
      round_half_even_quotient c (10 ^ k)"
    unfolding half round_half_even_quotient_def Let_def q_def[symmetric] r_def[symmetric]
    by auto
  ultimately show ?thesis by simp
qed

text \<open>\<^verbatim>\<open>to_integral_value\<close> on an exponent of at most 0 is the half-even quotient.\<close>

lemma to_integral_value_quotient:
  assumes "e \<le> 0"
  shows "to_integral_value \<lparr>dec_sign = s, dec_int = c, dec_exp = e\<rparr> =
           \<lparr>dec_sign = s, dec_int = round_half_even_quotient c (10 ^ nat (- e)), dec_exp = 0\<rparr>"
proof (cases "e = 0")
  case True
  then show ?thesis
    by (simp add: to_integral_value_def round_half_even_quotient_def)
next
  case False
  with assms have neg: "e < 0" by simp
  define k where "k = nat (- e)"
  have k: "0 < k" "e = - int k" using neg by (simp_all add: k_def)
  have tiv: "to_integral_value \<lparr>dec_sign = s, dec_int = c, dec_exp = e\<rparr> =
      rescale \<lparr>dec_sign = s, dec_int = c, dec_exp = - int k\<rparr> 0"
    using neg by (simp add: to_integral_value_def k(2)[symmetric])
  have "rescale \<lparr>dec_sign = s, dec_int = c, dec_exp = - int k\<rparr> 0 =
      \<lparr>dec_sign = s, dec_int = round_half_even_quotient c (10 ^ k), dec_exp = 0\<rparr>"
  proof (cases "c = 0")
    case True
    then show ?thesis
      by (simp add: rescale_def round_half_even_quotient_def)
  next
    case False
    show ?thesis
    proof (cases "length (str_nat c) < k")
      case True
      from rescale_all_dropped(1)[OF False k(1) True, of s]
        rescale_all_dropped(2)[OF False k(1) True]
      show ?thesis by simp
    next
      case False
      then have "k \<le> length (str_nat c)" by simp
      from rescale_some_dropped[OF \<open>c \<noteq> 0\<close> k(1) this] show ?thesis .
    qed
  qed
  with tiv show ?thesis by (simp add: k_def)
qed

text \<open>A decimal with exponent 0 is printed as its sign and its digits.\<close>

lemma dec_str_integral:
  "dec_str \<lparr>dec_sign = s, dec_int = n, dec_exp = 0\<rparr> = (if s then ''-'' else '''') @ str_nat n"
  using str_nat_nonempty[of n] by (simp add: dec_str_def Let_def)

text \<open>Within the precision and the exponent range, the product with 100 is exact.\<close>

lemma dec_mul_100_exact:
  assumes "dec_exp a \<le> 0" and "Etiny \<le> dec_exp a" and "dec_int a * 100 < 10 ^ ctx_prec"
  shows "dec_mul a (dec_of_int 100) =
           Inr \<lparr>dec_sign = dec_sign a, dec_int = dec_int a * 100, dec_exp = dec_exp a\<rparr>"
proof (cases "dec_int a = 0")
  case True
  with assms show ?thesis
    by (simp add: dec_mul_def dec_of_int_def dec_fix_def Emax_def)
next
  case False
  have len: "length (str_nat (dec_int a * 100)) \<le> ctx_prec"
    using str_nat_length_le[OF assms(3)] by (simp add: ctx_prec_def)
  have top: "dec_exp a \<le> Etop" using assms(1) by (simp add: Etop_def Emax_def ctx_prec_def)
  from False assms(1,2) len top show ?thesis
    by (simp add: dec_mul_def dec_of_int_def dec_fix_def Let_def)
qed

lemma example_amount_minor_units: "minor_units example_amount = ''2000''"
proof -
  have "round_half_even_quotient (19995 * 100) (10 ^ 3) = 2000"
    by (simp add: round_half_even_quotient_def Let_def)
  moreover have "str_nat 2000 = ''2000''"
    by (simp add: str_nat.simps[of 2000] str_nat.simps[of 200] str_nat.simps[of 20]
        str_nat.simps[of 2] digit_char_def)
  ultimately show ?thesis by (simp add: minor_units_def example_amount_def)
qed

lemma get_basket_amount_minor_units:
  assumes "dec_exp (total_incl_tax x) \<le> 0"
    and "Etiny \<le> dec_exp (total_incl_tax x)"
    and "dec_int (total_incl_tax x) * 100 < 10 ^ ctx_prec"
  shows "get_basket_amount x = Inr (minor_units (total_incl_tax x))"
  using assms
  by (simp add: get_basket_amount_def dec_mul_100_exact to_integral_value_quotient
      dec_str_integral minor_units_def)

text \<open>A tie goes to the even neighbour, not away from zero: 0.125 is rendered as
  \<^verbatim>\<open>"12"\<close>.\<close>

lemma tie_goes_to_even:
  "get_basket_amount (b\<lparr>total_incl_tax := \<lparr>dec_sign = False, dec_int = 125, dec_exp = - 3\<rparr>\<rparr>) =
     Inr ''12''"
proof -
  have "round_half_even_quotient (125 * 100) (10 ^ 3) = 12"
    by (simp add: round_half_even_quotient_def Let_def)
  moreover have "str_nat 12 = ''12''"
    by (simp add: str_nat.simps[of 12] str_nat.simps[of "Suc 0"] digit_char_def)
  ultimately have "minor_units \<lparr>dec_sign = False, dec_int = 125, dec_exp = - 3\<rparr> = ''12''"
    by (simp add: minor_units_def)
  then show ?thesis
    using get_basket_amount_minor_units[of
        "b\<lparr>total_incl_tax := \<lparr>dec_sign = False, dec_int = 125, dec_exp = - 3\<rparr>\<rparr>"]
    by (simp add: Etiny_def Emin_def ctx_prec_def)
qed

text \<open>\<^verbatim>\<open>create\<close> sends the token request and then the invoice request, whose
  \<^verbatim>\<open>amount\<close> is what \<^verbatim>\<open>_get_basket_amount\<close> returned, and returns the gateway's
  answer to the invoice request.\<close>

lemma create_sends_amount:
  assumes tok: "gateway ev (sent w) (token_request self) = Inr tres"
    and acc: "getitem tres ''access_token'' = Inr (JStr t)"
    and amt: "get_basket_amount b = Inr amount"
  shows "create ev self b w =
           (gateway ev (sent w @ [token_request self])
              (create_request self (''Bearer '' @ t) (order_number b) amount),
            w\<lparr>sent := sent w @ [token_request self,
                 create_request self (''Bearer '' @ t) (order_number b) amount]\<rparr>)"
proof -
  have t1: "token ev self w = (Inr (JStr t), w\<lparr>sent := sent w @ [token_request self]\<rparr>)"
    using tok acc by (rule token_ok)
  show ?thesis
    unfolding create_def
    by (simp add: bind_io_def t1 amt lift_io_def requests_request_def)
qed

text \<open>
  Claim C5. For a basket whose total has an exponent of at most 0 (not below the context's
  \<open>Etiny\<close>) and, times 100, a coefficient within the context's 28 digits,
  \<^verbatim>\<open>_get_basket_amount\<close> yields the digits of the exact product with 100 rounded to an
  integer by the decimal library's rule, ties to the even neighbour, after the sign; the
  computation is on the decimal's integer coefficient and exponent, with no binary floating
  point. Once the token is obtained, \<^verbatim>\<open>create\<close> sends exactly one invoice request,
  whose body carries that string as its \<^verbatim>\<open>amount\<close>, and returns the gateway's answer
  to it. For the amount 19.995 the string sent is \<^verbatim>\<open>"2000"\<close>.
\<close>

theorem create_sends_exact_minor_units:
  assumes tok: "gateway ev (sent w) (token_request self) = Inr tres"
    and acc: "getitem tres ''access_token'' = Inr (JStr t)"
    and "dec_exp (total_incl_tax b) \<le> 0"
    and "Etiny \<le> dec_exp (total_incl_tax b)"
    and "dec_int (total_incl_tax b) * 100 < 10 ^ ctx_prec"
  shows "get_basket_amount b = Inr (minor_units (total_incl_tax b))
       \<and> create ev self b w =
           (gateway ev (sent w @ [token_request self])
              (create_request self (''Bearer '' @ t) (order_number b)
                 (minor_units (total_incl_tax b))),
            w\<lparr>sent := sent w @ [token_request self,
                 create_request self (''Bearer '' @ t) (order_number b)
                   (minor_units (total_incl_tax b))]\<rparr>)
       \<and> req_data (create_request self (''Bearer '' @ t) (order_number b)
                     (minor_units (total_incl_tax b))) =
           JsonDumps (JObj
             [(''invoice_code'', JStr (invoice_code self)),
              (''sender_invoice_no'', JStr (order_number b)),
              (''invoice_receiver_code'', JStr ''terminal''),
              (''invoice_description'', JStr ''Course''),
              (''amount'', JStr (minor_units (total_incl_tax b))),
              (''callback_url'',
               JStr (base_url self @ ''payment/qpay/check/'' @ order_number b @ ''/''))])
       \<and> get_basket_amount (b\<lparr>total_incl_tax := example_amount\<rparr>) = Inr ''2000''
       \<and> create ev self (b\<lparr>total_incl_tax := example_amount\<rparr>) w =
           (gateway ev (sent w @ [token_request self])
              (create_request self (''Bearer '' @ t) (order_number b) ''2000''),
            w\<lparr>sent := sent w @ [token_request self,
                 create_request self (''Bearer '' @ t) (order_number b) ''2000'']\<rparr>)"
proof -
  have amt: "get_basket_amount b = Inr (minor_units (total_incl_tax b))"
    using assms(3-5) by (rule get_basket_amount_minor_units)
  have "get_basket_amount (b\<lparr>total_incl_tax := example_amount\<rparr>) =
        Inr (minor_units example_amount)"
    using get_basket_amount_minor_units[of "b\<lparr>total_incl_tax := example_amount\<rparr>"]
    by (simp add: example_amount_def Etiny_def Emin_def ctx_prec_def)
  then have ex: "get_basket_amount (b\<lparr>total_incl_tax := example_amount\<rparr>) = Inr ''2000''"
    by (simp add: example_amount_minor_units)
  have c1: "create ev self b w =
           (gateway ev (sent w @ [token_request self])
              (create_request self (''Bearer '' @ t) (order_number b)
                 (minor_units (total_incl_tax b))),
            w\<lparr>sent := sent w @ [token_request self,
                 create_request self (''Bearer '' @ t) (order_number b)
                   (minor_units (total_incl_tax b))]\<rparr>)"
    using tok acc amt by (rule create_sends_amount)
  have c2: "create ev self (b\<lparr>total_incl_tax := example_amount\<rparr>) w =
           (gateway ev (sent w @ [token_request self])
              (create_request self (''Bearer '' @ t) (order_number b) ''2000''),
            w\<lparr>sent := sent w @ [token_request self,
                 create_request self (''Bearer '' @ t) (order_number b) ''2000'']\<rparr>)"
    using create_sends_amount[OF tok acc ex] by simp
  have body: "req_data (create_request self (''Bearer '' @ t) (order_number b)
                     (minor_units (total_incl_tax b))) =
           JsonDumps (JObj
             [(''invoice_code'', JStr (invoice_code self)),
              (''sender_invoice_no'', JStr (order_number b)),
              (''invoice_receiver_code'', JStr ''terminal''),
              (''invoice_description'', JStr ''Course''),
              (''amount'', JStr (minor_units (total_incl_tax b))),
              (''callback_url'',
               JStr (base_url self @ ''payment/qpay/check/'' @ order_number b @ ''/''))])"
    by (simp add: create_request_def)
  from amt c1 body ex c2 show ?thesis by blast
qed

text \<open>The basket of 19.995 at a concrete gateway: the invoice request carries
  \<^verbatim>\<open>"2000"\<close> and the gateway's invoice is returned.\<close>

theorem create_sends_exact_minor_units_witness:
  "create (example_env invoice_body) example_qpay example_basket example_world =
     (Inr invoice_body,
      \<lparr>sent = [token_request example_qpay,
               create_request example_qpay ''Bearer t'' ''ORD-1'' ''2000''],
       audit_log = []\<rparr>)
   \<and> get_basket_amount example_basket = Inr ''2000''"
proof -
  have tok: "gateway (example_env invoice_body) (sent example_world)
      (token_request example_qpay) = Inr (JObj [(''access_token'', JStr ''t'')])"
    by (simp add: run_defs)
  have acc: "getitem (JObj [(''access_token'', JStr ''t'')]) ''access_token'' = Inr (JStr ''t'')"
    by simp
  have a: "dec_exp (total_incl_tax example_basket) \<le> 0"
    by (simp add: example_basket_def example_amount_def)
  have b: "Etiny \<le> dec_exp (total_incl_tax example_basket)"
    by (simp add: example_basket_def example_amount_def Etiny_def Emin_def ctx_prec_def)
  have c: "dec_int (total_incl_tax example_basket) * 100 < 10 ^ ctx_prec"
    by (simp add: example_basket_def example_amount_def ctx_prec_def)
  have d: "total_incl_tax example_basket = example_amount"
    and o: "order_number example_basket = ''ORD-1''"
    by (simp_all add: example_basket_def)
  have g: "gateway (example_env invoice_body) (sent example_world @ [token_request example_qpay])
      (create_request example_qpay (''Bearer '' @ ''t'') ''ORD-1'' ''2000'') = Inr invoice_body"
    by (simp add: run_defs create_request_def)
  from create_sends_exact_minor_units[OF tok acc a b c]
  have "get_basket_amount example_basket = Inr (minor_units example_amount)"
    and "create (example_env invoice_body) example_qpay example_basket example_world =
           (gateway (example_env invoice_body) (sent example_world @ [token_request example_qpay])
              (create_request example_qpay (''Bearer '' @ ''t'') ''ORD-1''
                 (minor_units example_amount)),
            example_world\<lparr>sent := sent example_world @ [token_request example_qpay,
                 create_request example_qpay (''Bearer '' @ ''t'') ''ORD-1''
                   (minor_units example_amount)]\<rparr>)"
    by (simp_all add: d o)
  then show ?thesis
    using g by (simp add: example_amount_minor_units example_world_def)
qed

end
